theory Spec2Isabelle
  imports Complex_Main
begin

section \<open>Data model\<close>

text \<open>
  The upload record of \<^verbatim>\<open>services/uploadDb.ts\<close> (interface \<^verbatim>\<open>UploadRecord\<close>) and
  the part of \<^verbatim>\<open>services/s3Upload.ts\<close> (interface \<^verbatim>\<open>UploadPart\<close>). String unions
  are datatypes, optional or nullable columns are options, dates are milliseconds since
  the epoch, byte counts and part numbers are natural numbers. The field \<^verbatim>\<open>size\<close> of
  a part is \<open>size_bytes\<close> and the column \<^verbatim>\<open>id\<close> is \<open>row_id\<close>, the source's names
  being constants of HOL.
\<close>

datatype UploadStatus = Active | Completed | Aborted | Failed

datatype ProcessingStatus = Pending | Processing | Processed | ProcessingFailed

datatype UploadType = Single | Multipart

record UploadPart =
  partNumber :: nat
  etag :: "string option"
  size_bytes :: nat
  uploadedAt :: "nat option"

record UploadRecord =
  row_id :: string
  user_id :: string
  upload_id :: string
  s3_key :: string
  bucket :: string
  filename :: string
  content_type :: string
  total_size :: nat
  status :: UploadStatus
  processing_status :: "ProcessingStatus option"
  processing_progress :: "nat option"
  processing_message :: "string option"
  upload_type :: UploadType
  parts :: "UploadPart list"
  created_at :: nat
  updated_at :: nat
  completed_at :: "nat option"
  final_s3_key :: "string option"
  final_bucket :: "string option"
  thumbnail_s3_key :: "string option"
  thumbnail_url :: "string option"
  thumbnail_cloudinary_url :: "string option"

section \<open>The record store client\<close>

text \<open>
  The table \<^verbatim>\<open>uploads\<close> is a list of rows. A query of the store client answers with
  a pair of data and error; \<open>PgError code message\<close> is the error object. On a table held
  in memory the errors are the one \<^verbatim>\<open>.single()\<close> gives when the filter does not
  select exactly one row, code \<^verbatim>\<open>PGRST116\<close>, and the one an insert gives when the
  new row repeats an \<^verbatim>\<open>upload_id\<close> (constraint \<^verbatim>\<open>uploads_upload_id_key\<close> of the
  schema), code \<^verbatim>\<open>23505\<close>; an update cannot fail. An exception thrown by the source
  is \<open>Inl (Error message)\<close>.
\<close>

type_synonym uploads_table = "UploadRecord list"

datatype pg_error = PgError string string

datatype js_error = Error string

fun pg_code :: "pg_error \<Rightarrow> string" where
  "pg_code (PgError c m) = c"

fun pg_message :: "pg_error \<Rightarrow> string" where
  "pg_message (PgError c m) = m"

text \<open>\<^verbatim>\<open>.eq('upload_id', uploadId).eq('user_id', userId)\<close>\<close>

definition eq_upload :: "string \<Rightarrow> string \<Rightarrow> UploadRecord \<Rightarrow> bool" where
  "eq_upload uploadId userId r = (upload_id r = uploadId \<and> user_id r = userId)"

text \<open>\<^verbatim>\<open>.select(...).single()\<close> on the rows a filter selects.\<close>

definition select_single :: "(UploadRecord \<Rightarrow> bool) \<Rightarrow> uploads_table \<Rightarrow> pg_error + UploadRecord" where
  "select_single p t =
     (case filter p t of
        [r] \<Rightarrow> Inr r
      | _ \<Rightarrow> Inl (PgError ''PGRST116'' ''JSON object requested, multiple (or no) rows returned''))"

text \<open>\<^verbatim>\<open>.update(values)\<close> on the rows a filter selects: the error and the new table.\<close>

definition update_rows ::
  "(UploadRecord \<Rightarrow> bool) \<Rightarrow> (UploadRecord \<Rightarrow> UploadRecord) \<Rightarrow> uploads_table
     \<Rightarrow> pg_error option \<times> uploads_table" where
  "update_rows p f t = (None, map (\<lambda>r. if p r then f r else r) t)"

text \<open>\<^verbatim>\<open>.insert(row)\<close>: the error and the new table.\<close>

definition insert_row :: "UploadRecord \<Rightarrow> uploads_table \<Rightarrow> pg_error option \<times> uploads_table" where
  "insert_row r t =
     (if upload_id r \<in> set (map upload_id t) then
        (Some (PgError ''23505''
                 ''duplicate key value violates unique constraint uploads_upload_id_key''), t)
      else (None, t @ [r]))"

section \<open>UploadDbService (services/uploadDb.ts)\<close>

definition createUploadRecord ::
  "uploads_table \<Rightarrow> string \<Rightarrow> string \<Rightarrow> string option \<Rightarrow> string \<Rightarrow> string \<Rightarrow> string
     \<Rightarrow> string \<Rightarrow> nat \<Rightarrow> UploadType \<Rightarrow> nat \<Rightarrow> string \<Rightarrow> js_error + (string \<times> uploads_table)" where
  "createUploadRecord t newId userId uploadId s3Key bucketName fileName contentType totalSize
       uploadType now nowText =
     (case insert_row
             \<lparr> row_id = newId, user_id = userId,
               upload_id = (case uploadId of
                              Some u \<Rightarrow> (if u = [] then ''single-'' @ nowText else u)
                            | None \<Rightarrow> ''single-'' @ nowText),
               s3_key = s3Key, bucket = bucketName, filename = fileName,
               content_type = contentType, total_size = totalSize, status = Active,
               processing_status = Some Pending, processing_progress = Some 0,
               processing_message = None, upload_type = uploadType, parts = [],
               created_at = now, updated_at = now, completed_at = None,
               final_s3_key = None, final_bucket = None, thumbnail_s3_key = None,
               thumbnail_url = None, thumbnail_cloudinary_url = None \<rparr> t of
        (Some e, _) \<Rightarrow> Inl (Error (''Failed to create upload record: '' @ pg_message e))
      | (None, t1) \<Rightarrow> Inr (newId, t1))"

definition getUploadRecord ::
  "uploads_table \<Rightarrow> string \<Rightarrow> string \<Rightarrow> js_error + UploadRecord option" where
  "getUploadRecord t uploadId userId =
     (case select_single (eq_upload uploadId userId) t of
        Inl e \<Rightarrow> (if pg_code e = ''PGRST116'' then Inr None
                  else Inl (Error (''Failed to get upload record: '' @ pg_message e)))
      | Inr r \<Rightarrow> Inr (Some r))"

text \<open>
  Lines 121 to 137 of \<^verbatim>\<open>updateUploadPart\<close>: \<^verbatim>\<open>findIndex\<close> gives the first index whose
  part has the number, or -1; the part at that index is replaced, or the new part is
  pushed.
\<close>

fun findIndex :: "('a \<Rightarrow> bool) \<Rightarrow> 'a list \<Rightarrow> nat option" where
  "findIndex p [] = None"
| "findIndex p (x # xs) =
     (if p x then Some 0 else (case findIndex p xs of None \<Rightarrow> None | Some i \<Rightarrow> Some (Suc i)))"

definition upsert_part :: "UploadPart list \<Rightarrow> UploadPart \<Rightarrow> UploadPart list" where
  "upsert_part ps newPart =
     (case findIndex (\<lambda>p. partNumber p = partNumber newPart) ps of
        Some existingPartIndex \<Rightarrow> ps[existingPartIndex := newPart]
      | None \<Rightarrow> ps @ [newPart])"

text \<open>
  \<^verbatim>\<open>updateUploadPart\<close> awaits twice: the read of the record (line 116) and the update
  of the row (lines 139 to 146). Between the two the function computes the new parts from
  the record it has read. \<open>updateUploadPart_write\<close> is the function from line 121 on,
  given the record the read returned.
\<close>

definition updateUploadPart_write ::
  "uploads_table \<Rightarrow> string \<Rightarrow> string \<Rightarrow> UploadRecord \<Rightarrow> nat \<Rightarrow> string \<Rightarrow> nat \<Rightarrow> nat
     \<Rightarrow> js_error + uploads_table" where
  "updateUploadPart_write t uploadId userId record partNo eTag nbytes now =
     (let newPart = \<lparr> partNumber = partNo, etag = Some eTag, size_bytes = nbytes,
                      uploadedAt = Some now \<rparr>;
          newParts = upsert_part (parts record) newPart
      in case update_rows (eq_upload uploadId userId)
                (\<lambda>r. r\<lparr> parts := newParts, updated_at := now \<rparr>) t of
           (Some e, _) \<Rightarrow> Inl (Error (''Failed to update upload part: '' @ pg_message e))
         | (None, t') \<Rightarrow> Inr t')"

definition updateUploadPart ::
  "uploads_table \<Rightarrow> string \<Rightarrow> string \<Rightarrow> nat \<Rightarrow> string \<Rightarrow> nat \<Rightarrow> nat \<Rightarrow> js_error + uploads_table" where
  "updateUploadPart t uploadId userId partNo eTag nbytes now =
     (case getUploadRecord t uploadId userId of
        Inl e \<Rightarrow> Inl e
      | Inr None \<Rightarrow> Inl (Error ''Upload record not found'')
      | Inr (Some record) \<Rightarrow> updateUploadPart_write t uploadId userId record partNo eTag nbytes now)"

text \<open>
  An argument left out of a call is \<^verbatim>\<open>undefined\<close>, and a property whose value is
  \<^verbatim>\<open>undefined\<close> is dropped when the update is serialised: the column keeps its value.
\<close>

definition set_if_given :: "'a option \<Rightarrow> 'a option \<Rightarrow> 'a option" where
  "set_if_given arg old = (case arg of None \<Rightarrow> old | Some v \<Rightarrow> Some v)"

definition markUploadCompleted ::
  "uploads_table \<Rightarrow> string \<Rightarrow> string \<Rightarrow> string option \<Rightarrow> string option \<Rightarrow> string option
     \<Rightarrow> string option \<Rightarrow> string option \<Rightarrow> nat \<Rightarrow> js_error + uploads_table" where
  "markUploadCompleted t uploadId userId finalS3Key finalBucketName thumbnailS3Key thumbnailUrl
       thumbnailCloudinaryUrl now =
     (case update_rows (eq_upload uploadId userId)
             (\<lambda>r. r\<lparr> status := Completed, completed_at := Some now, updated_at := now,
                      final_s3_key := set_if_given finalS3Key (final_s3_key r),
                      final_bucket := set_if_given finalBucketName (final_bucket r),
                      thumbnail_s3_key := set_if_given thumbnailS3Key (thumbnail_s3_key r),
                      thumbnail_url := set_if_given thumbnailUrl (thumbnail_url r),
                      thumbnail_cloudinary_url :=
                        set_if_given thumbnailCloudinaryUrl (thumbnail_cloudinary_url r) \<rparr>) t of
        (Some e, _) \<Rightarrow> Inl (Error (''Failed to mark upload completed: '' @ pg_message e))
      | (None, t') \<Rightarrow> Inr t')"

definition markUploadAborted :: "uploads_table \<Rightarrow> string \<Rightarrow> string \<Rightarrow> nat \<Rightarrow> js_error + uploads_table" where
  "markUploadAborted t uploadId userId now =
     (case update_rows (eq_upload uploadId userId)
             (\<lambda>r. r\<lparr> status := Aborted, updated_at := now \<rparr>) t of
        (Some e, _) \<Rightarrow> Inl (Error (''Failed to mark upload aborted: '' @ pg_message e))
      | (None, t') \<Rightarrow> Inr t')"

definition markUploadFailed :: "uploads_table \<Rightarrow> string \<Rightarrow> string \<Rightarrow> nat \<Rightarrow> js_error + uploads_table" where
  "markUploadFailed t uploadId userId now =
     (case update_rows (eq_upload uploadId userId)
             (\<lambda>r. r\<lparr> status := Failed, updated_at := now \<rparr>) t of
        (Some e, _) \<Rightarrow> Inl (Error (''Failed to mark upload failed: '' @ pg_message e))
      | (None, t') \<Rightarrow> Inr t')"

text \<open>
  \<^verbatim>\<open>updateProcessingStatus\<close>: the progress, when given, is clamped to the range from 0 to
  100. No function of the repository calls it.
\<close>

definition updateProcessingStatus ::
  "uploads_table \<Rightarrow> string \<Rightarrow> string \<Rightarrow> ProcessingStatus \<Rightarrow> int option \<Rightarrow> string option
     \<Rightarrow> nat \<Rightarrow> js_error + uploads_table" where
  "updateProcessingStatus t uploadId userId processingStatus progress message now =
     (case update_rows (eq_upload uploadId userId)
             (\<lambda>r. r\<lparr> processing_status := Some processingStatus, updated_at := now,
                      processing_progress :=
                        (case progress of
                           None \<Rightarrow> processing_progress r
                         | Some p \<Rightarrow> Some (nat (max 0 (min 100 p)))),
                      processing_message := set_if_given message (processing_message r) \<rparr>) t of
        (Some e, _) \<Rightarrow> Inl (Error (''Failed to update processing status: '' @ pg_message e))
      | (None, t1) \<Rightarrow> Inr t1)"

text \<open>
  \<^verbatim>\<open>getUploadStatus\<close> selects five columns of the row and derives
  \<^verbatim>\<open>ready_for_display\<close>. A column without a value is \<^verbatim>\<open>null\<close> in the answer.
\<close>

record UploadStatusView =
  upload_status :: UploadStatus
  view_processing_status :: "ProcessingStatus option"
  view_processing_progress :: "nat option"
  view_processing_message :: "string option"
  ready_for_display :: bool

definition getUploadStatus ::
  "uploads_table \<Rightarrow> string \<Rightarrow> string \<Rightarrow> js_error + UploadStatusView option" where
  "getUploadStatus t uploadId userId =
     (case select_single (eq_upload uploadId userId) t of
        Inl e \<Rightarrow> (if pg_code e = ''PGRST116'' then Inr None
                  else Inl (Error (''Failed to get upload status: '' @ pg_message e)))
      | Inr data \<Rightarrow>
          Inr (Some \<lparr> upload_status = status data,
                      view_processing_status = processing_status data,
                      view_processing_progress = processing_progress data,
                      view_processing_message = processing_message data,
                      ready_for_display =
                        (status data = Completed \<and>
                         (processing_status data = Some Processed \<or> processing_status data = None) \<and>
                         final_s3_key data \<noteq> None) \<rparr>))"

section \<open>S3UploadService (services/s3Upload.ts)\<close>

text \<open>
  The service holds the names of the two buckets. The object store is outside the
  repository: what it answers to each kind of command is a parameter (\<open>None\<close>: the command
  resolves; \<open>Some e\<close>: \<^verbatim>\<open>send\<close> throws \<open>e\<close>), and the objects it holds are a set of
  pairs of bucket and key, on which a copy adds the target when the source exists and a
  delete removes the object, if any.
\<close>

record S3UploadService =
  tempBucket :: string
  finalBucket :: string

record ObjectStore =
  create_answer :: "js_error + string option"
  complete_answer :: "(nat \<times> string) list \<Rightarrow> js_error option"
  abort_answer :: "js_error option"
  copy_answer :: "js_error option"
  delete_answer :: "string \<Rightarrow> string \<Rightarrow> js_error option"

type_synonym s3_objects = "(string \<times> string) set"

text \<open>The decimal text of a number, as a template literal renders \<^verbatim>\<open>Date.now()\<close>.\<close>

fun show_nat :: "nat \<Rightarrow> string" where
  "show_nat n =
     (if n < 10 then [''0123456789'' ! n]
      else show_nat (n div 10) @ [''0123456789'' ! (n mod 10)])"

declare show_nat.simps [simp del]

definition generateS3Key :: "string \<Rightarrow> string \<Rightarrow> nat \<Rightarrow> string" where
  "generateS3Key userId fileName now = userId @ ''/'' @ show_nat now @ ''-'' @ fileName"

definition initiateMultipartUpload ::
  "ObjectStore \<Rightarrow> string \<Rightarrow> string \<Rightarrow> string \<Rightarrow> nat \<Rightarrow> nat \<Rightarrow> js_error + (string \<times> string)" where
  "initiateMultipartUpload store userId fileName contentType totalSize now =
     (let key = userId @ ''/'' @ show_nat now @ ''-'' @ fileName
      in case create_answer store of
           Inl e \<Rightarrow> Inl e
         | Inr None \<Rightarrow> Inl (Error ''Failed to initiate multipart upload'')
         | Inr (Some u) \<Rightarrow>
             (if u = [] then Inl (Error ''Failed to initiate multipart upload'') else Inr (u, key)))"

definition completeMultipartUpload ::
  "ObjectStore \<Rightarrow> string \<Rightarrow> string \<Rightarrow> string \<Rightarrow> (nat \<times> string) list \<Rightarrow> js_error + unit" where
  "completeMultipartUpload store bucketName key uploadId ps =
     (case complete_answer store (sort_key fst ps) of Some e \<Rightarrow> Inl e | None \<Rightarrow> Inr ())"

definition abortMultipartUpload ::
  "ObjectStore \<Rightarrow> string \<Rightarrow> string \<Rightarrow> string \<Rightarrow> js_error + unit" where
  "abortMultipartUpload store bucketName key uploadId =
     (case abort_answer store of Some e \<Rightarrow> Inl e | None \<Rightarrow> Inr ())"

definition copyObject ::
  "ObjectStore \<Rightarrow> s3_objects \<Rightarrow> string \<Rightarrow> string \<Rightarrow> string \<Rightarrow> string \<Rightarrow> js_error + s3_objects" where
  "copyObject store objs sourceBucket sourceKey targetBucket targetKey =
     (case copy_answer store of
        Some e \<Rightarrow> Inl e
      | None \<Rightarrow>
          (if (sourceBucket, sourceKey) \<in> objs then Inr (insert (targetBucket, targetKey) objs)
           else Inl (Error ''NoSuchKey'')))"

definition deleteObject ::
  "ObjectStore \<Rightarrow> s3_objects \<Rightarrow> string \<Rightarrow> string \<Rightarrow> js_error + s3_objects" where
  "deleteObject store objs bucketName key =
     (case delete_answer store bucketName key of
        Some e \<Rightarrow> Inl e
      | None \<Rightarrow> Inr (objs - {(bucketName, key)}))"

section \<open>FileProcessorService (services/fileProcessing.ts)\<close>

record ProcessingResult =
  success :: bool
  finalKey :: "string option"
  thumbnailKey :: "string option"
  thumbnailUrl :: "string option"
  error :: "string option"

record VirusScanResult =
  clean :: bool
  details :: "string option"

text \<open>\<^verbatim>\<open>performVirusScan\<close> as the source has it: every file is clean.\<close>

definition performVirusScan :: "string \<Rightarrow> VirusScanResult" where
  "performVirusScan key = \<lparr> clean = True, details = None \<rparr>"

text \<open>
  \<^verbatim>\<open>cleanupFailedProcessing\<close>: two deletions, each in a \<^verbatim>\<open>try\<close> of its own whose
  \<^verbatim>\<open>catch\<close> goes on.
\<close>

definition cleanupFailedProcessing ::
  "S3UploadService \<Rightarrow> ObjectStore \<Rightarrow> s3_objects \<Rightarrow> string \<Rightarrow> string \<Rightarrow> s3_objects" where
  "cleanupFailedProcessing svc store objs finalK tempKey =
     (let objs1 = (case deleteObject store objs (finalBucket svc) finalK of
                     Inl e \<Rightarrow> objs | Inr o1 \<Rightarrow> o1)
      in case deleteObject store objs1 (tempBucket svc) tempKey of
           Inl e \<Rightarrow> objs1 | Inr o2 \<Rightarrow> o2)"

text \<open>
  The body of the inner \<^verbatim>\<open>try\<close> of \<^verbatim>\<open>processUpload\<close> (lines 54 to 110), with the
  scanner as a parameter: \<open>Inl\<close> is the exception that reaches the inner \<^verbatim>\<open>catch\<close>,
  together with the table and the objects at that moment. No thumbnail is generated, the
  three thumbnail variables stay \<^verbatim>\<open>undefined\<close>.
\<close>

definition processUpload_body ::
  "(string \<Rightarrow> VirusScanResult) \<Rightarrow> S3UploadService \<Rightarrow> ObjectStore \<Rightarrow> uploads_table \<Rightarrow> s3_objects
     \<Rightarrow> UploadRecord \<Rightarrow> string \<Rightarrow> string \<Rightarrow> string \<Rightarrow> nat
     \<Rightarrow> (js_error + ProcessingResult) \<times> uploads_table \<times> s3_objects" where
  "processUpload_body scan svc store t objs uploadRecord uploadId userId finalK now =
     (case copyObject store objs (tempBucket svc) (s3_key uploadRecord) (finalBucket svc) finalK of
        Inl e \<Rightarrow> (Inl e, t, objs)
      | Inr objs1 \<Rightarrow>
          (let thumbKey = (None :: string option);
               thumbUrl = (None :: string option);
               thumbCloudinaryUrl = (None :: string option);
               virusScanResult = scan finalK
           in if \<not> clean virusScanResult then
                (case deleteObject store objs1 (finalBucket svc) finalK of
                   Inl e \<Rightarrow> (Inl e, t, objs1)
                 | Inr objs2 \<Rightarrow>
                     (case thumbKey of
                        Some k \<Rightarrow>
                          (case deleteObject store objs2 (finalBucket svc) k of
                             Inl e \<Rightarrow> (Inl e, t, objs2)
                           | Inr objs3 \<Rightarrow>
                               (Inr \<lparr> success = False, finalKey = None, thumbnailKey = None,
                                      thumbnailUrl = None,
                                      error = Some ''File failed virus scan'' \<rparr>, t, objs3))
                      | None \<Rightarrow>
                          (Inr \<lparr> success = False, finalKey = None, thumbnailKey = None,
                                 thumbnailUrl = None,
                                 error = Some ''File failed virus scan'' \<rparr>, t, objs2)))
              else
                (case markUploadCompleted t uploadId userId (Some finalK) (Some (finalBucket svc))
                        thumbKey thumbUrl thumbCloudinaryUrl now of
                   Inl e \<Rightarrow> (Inl e, t, objs1)
                 | Inr t1 \<Rightarrow>
                     (case deleteObject store objs1 (tempBucket svc) (s3_key uploadRecord) of
                        Inl e \<Rightarrow> (Inl e, t1, objs1)
                      | Inr objs2 \<Rightarrow>
                          (Inr \<lparr> success = True, finalKey = Some finalK, thumbnailKey = thumbKey,
                                 thumbnailUrl = thumbUrl, error = None \<rparr>, t1, objs2)))))"

fun error_message :: "js_error \<Rightarrow> string" where
  "error_message (Error m) = m"

definition processing_error :: "js_error \<Rightarrow> ProcessingResult" where
  "processing_error e =
     \<lparr> success = False, finalKey = None, thumbnailKey = None, thumbnailUrl = None,
       error = Some (error_message e) \<rparr>"

text \<open>
  \<^verbatim>\<open>processUpload\<close> with the scanner as a parameter. The inner \<^verbatim>\<open>catch\<close> cleans up,
  marks the upload failed and throws again; the outer \<^verbatim>\<open>catch\<close> turns every
  exception into a result.
\<close>

definition processUpload_with ::
  "(string \<Rightarrow> VirusScanResult) \<Rightarrow> S3UploadService \<Rightarrow> ObjectStore \<Rightarrow> uploads_table \<Rightarrow> s3_objects
     \<Rightarrow> string \<Rightarrow> string \<Rightarrow> nat \<Rightarrow> ProcessingResult \<times> uploads_table \<times> s3_objects" where
  "processUpload_with scan svc store t objs uploadId userId now =
     (case getUploadRecord t uploadId userId of
        Inl e \<Rightarrow> (processing_error e, t, objs)
      | Inr None \<Rightarrow>
          (\<lparr> success = False, finalKey = None, thumbnailKey = None, thumbnailUrl = None,
             error = Some ''Upload record not found'' \<rparr>, t, objs)
      | Inr (Some uploadRecord) \<Rightarrow>
          (if status uploadRecord \<noteq> Completed then
             (\<lparr> success = False, finalKey = None, thumbnailKey = None, thumbnailUrl = None,
                error = Some ''Upload not completed'' \<rparr>, t, objs)
           else
             (let finalK = s3_key uploadRecord
              in case processUpload_body scan svc store t objs uploadRecord uploadId userId
                        finalK now of
                   (Inr res, t1, objs1) \<Rightarrow> (res, t1, objs1)
                 | (Inl processingError, t1, objs1) \<Rightarrow>
                     (let objs2 = cleanupFailedProcessing svc store objs1 finalK
                                    (s3_key uploadRecord)
                      in case markUploadFailed t1 uploadId userId now of
                           Inl e \<Rightarrow> (processing_error e, t1, objs2)
                         | Inr t2 \<Rightarrow> (processing_error processingError, t2, objs2)))))"

definition processUpload ::
  "S3UploadService \<Rightarrow> ObjectStore \<Rightarrow> uploads_table \<Rightarrow> s3_objects \<Rightarrow> string \<Rightarrow> string \<Rightarrow> nat
     \<Rightarrow> ProcessingResult \<times> uploads_table \<times> s3_objects" where
  "processUpload = processUpload_with performVirusScan"

section \<open>The upload routes (routes/upload.ts)\<close>

text \<open>
  A handler takes the table and returns the reply and the new table. The body of a
  request is checked against the route's schema before the handler runs; a body that
  fails the check is answered with status 400. Numbers of a body are natural numbers.
  The percentage \<^verbatim>\<open>progress\<close> of the status reply is not modelled.
\<close>

record InitiateUploadResponse =
  resp_uploadId :: string
  resp_s3Key :: string
  resp_uploadType :: UploadType
  resp_chunkSize :: nat
  resp_totalChunks :: nat

record UploadStatusResponse =
  st_uploadId :: string
  st_status :: UploadStatus
  st_uploadType :: UploadType
  st_uploadedParts :: "UploadPart list"
  st_totalParts :: nat
  st_uploadedSize :: nat
  st_totalSize :: nat

datatype reply =
    Reply_initiate InitiateUploadResponse
  | Reply_success
  | Reply_completed string string UploadType
  | Reply_status UploadStatusResponse
  | Reply_error nat string

definition InitiateUploadSchema :: "string \<Rightarrow> string \<Rightarrow> nat \<Rightarrow> nat option \<Rightarrow> bool" where
  "InitiateUploadSchema fileName contentType totalSize chunkSize =
     (1 \<le> length fileName \<and> length fileName \<le> 255 \<and>
      (take 6 contentType = ''image/'' \<or> take 6 contentType = ''video/'') \<and>
      1 \<le> totalSize \<and> totalSize \<le> 5 * 1024 * 1024 * 1024 \<and>
      (case chunkSize of None \<Rightarrow> True | Some c \<Rightarrow> 1024 \<le> c \<and> c \<le> 100 * 1024 * 1024))"

definition CompletePartSchema :: "string \<Rightarrow> nat \<Rightarrow> string \<Rightarrow> nat \<Rightarrow> bool" where
  "CompletePartSchema uploadId partNo eTag nbytes =
     (1 \<le> length uploadId \<and> 1 \<le> partNo \<and> partNo \<le> 10000 \<and> 1 \<le> length eTag \<and> 1 \<le> nbytes)"

definition CompleteUploadSchema :: "string \<Rightarrow> (nat \<times> string) list option \<Rightarrow> bool" where
  "CompleteUploadSchema uploadId ps =
     (1 \<le> length uploadId \<and>
      (case ps of None \<Rightarrow> True
       | Some l \<Rightarrow> list_all (\<lambda>(n, e). 1 \<le> n \<and> n \<le> 10000 \<and> 1 \<le> length e) l))"

definition AbortUploadSchema :: "string \<Rightarrow> bool" where
  "AbortUploadSchema uploadId = (1 \<le> length uploadId)"

definition UploadStatusSchema :: "string \<Rightarrow> bool" where
  "UploadStatusSchema uploadId = (1 \<le> length uploadId)"

text \<open>
  \<^verbatim>\<open>Math.ceil(a / b)\<close> on natural numbers, \<open>b\<close> positive. The quotients of the routes
  are below \<open>2 ^ 23\<close> with divisors below \<open>2 ^ 27\<close>, where the rounding of the
  floating-point division cannot reach the next integer.
\<close>

definition ceil_div :: "nat \<Rightarrow> nat \<Rightarrow> nat" where
  "ceil_div a b = (a + b - 1) div b"

definition MULTIPART_THRESHOLD :: nat where
  "MULTIPART_THRESHOLD = 5 * 1024 * 1024"

text \<open>
  \<^verbatim>\<open>POST /initiate\<close>. \<open>rnd\<close> is the text \<^verbatim>\<open>Math.random().toString(36).substr(2, 9)\<close>
  and \<open>newId\<close> the identifier the table gives the new row.
\<close>

definition initiate ::
  "S3UploadService \<Rightarrow> ObjectStore \<Rightarrow> uploads_table \<Rightarrow> string \<Rightarrow> string \<Rightarrow> string \<Rightarrow> nat
     \<Rightarrow> nat option \<Rightarrow> nat \<Rightarrow> string \<Rightarrow> string \<Rightarrow> reply \<times> uploads_table" where
  "initiate svc store t userId fileName contentType totalSize chunkSizeOpt now rnd newId =
     (if \<not> InitiateUploadSchema fileName contentType totalSize chunkSizeOpt then
        (Reply_error 400 ''Bad Request'', t)
      else
        (let chunkSize = (case chunkSizeOpt of None \<Rightarrow> 10 * 1024 * 1024 | Some c \<Rightarrow> c);
             uploadType = (if totalSize \<ge> MULTIPART_THRESHOLD then Multipart else Single);
             started =
               (if uploadType = Multipart then
                  initiateMultipartUpload store userId fileName contentType totalSize now
                else
                  Inr (''single-'' @ show_nat now @ ''-'' @ rnd,
                       generateS3Key userId fileName now))
         in case started of
              Inl e \<Rightarrow> (Reply_error 500 ''Failed to initiate upload'', t)
            | Inr (uploadId, key) \<Rightarrow>
                (case createUploadRecord t newId userId (Some uploadId) key (tempBucket svc)
                        fileName contentType totalSize uploadType now (show_nat now) of
                   Inl e \<Rightarrow> (Reply_error 500 ''Failed to initiate upload'', t)
                 | Inr (rid, t1) \<Rightarrow>
                     (let totalChunks =
                            (if uploadType = Multipart then ceil_div totalSize chunkSize else 1)
                      in (Reply_initiate
                            \<lparr> resp_uploadId = uploadId, resp_s3Key = key,
                              resp_uploadType = uploadType,
                              resp_chunkSize =
                                (if uploadType = Multipart then chunkSize else totalSize),
                              resp_totalChunks = totalChunks \<rparr>, t1)))))"

text \<open>\<^verbatim>\<open>POST /complete-part\<close>\<close>

definition complete_part ::
  "uploads_table \<Rightarrow> string \<Rightarrow> string \<Rightarrow> nat \<Rightarrow> string \<Rightarrow> nat \<Rightarrow> nat \<Rightarrow> reply \<times> uploads_table" where
  "complete_part t userId uploadId partNo eTag nbytes now =
     (if \<not> CompletePartSchema uploadId partNo eTag nbytes then (Reply_error 400 ''Bad Request'', t)
      else
        (case getUploadRecord t uploadId userId of
           Inl e \<Rightarrow> (Reply_error 500 ''Failed to complete part'', t)
         | Inr None \<Rightarrow> (Reply_error 404 ''Upload not found'', t)
         | Inr (Some uploadRecord) \<Rightarrow>
             (if upload_type uploadRecord \<noteq> Multipart then
                (Reply_error 400 ''Part completion only supported for multipart uploads'', t)
              else
                (case updateUploadPart t uploadId userId partNo eTag nbytes now of
                   Inl e \<Rightarrow> (Reply_error 500 ''Failed to complete part'', t)
                 | Inr t1 \<Rightarrow> (Reply_success, t1)))))"

text \<open>
  \<^verbatim>\<open>POST /complete\<close>. The third component is the processing the handler schedules
  (\<^verbatim>\<open>fileProcessor.scheduleProcessing(uploadId, userId)\<close>), if any.
\<close>

definition complete ::
  "ObjectStore \<Rightarrow> uploads_table \<Rightarrow> string \<Rightarrow> string \<Rightarrow> (nat \<times> string) list option \<Rightarrow> nat
     \<Rightarrow> reply \<times> uploads_table \<times> (string \<times> string) option" where
  "complete store t userId uploadId ps now =
     (if \<not> CompleteUploadSchema uploadId ps then (Reply_error 400 ''Bad Request'', t, None)
      else
        (case getUploadRecord t uploadId userId of
           Inl e \<Rightarrow> (Reply_error 500 ''Failed to complete upload'', t, None)
         | Inr None \<Rightarrow> (Reply_error 404 ''Upload not found'', t, None)
         | Inr (Some uploadRecord) \<Rightarrow>
             (if status uploadRecord \<noteq> Active then
                (Reply_error 400 ''Upload is not active'', t, None)
              else if upload_type uploadRecord = Multipart \<and> (ps = None \<or> ps = Some []) then
                (Reply_error 400 ''Parts required for multipart upload'', t, None)
              else
                (let finished =
                       (case (if upload_type uploadRecord = Multipart then
                                completeMultipartUpload store (bucket uploadRecord)
                                  (s3_key uploadRecord) uploadId (case ps of Some l \<Rightarrow> l | None \<Rightarrow> [])
                              else Inr ()) of
                          Inl s3Error \<Rightarrow> Inl s3Error
                        | Inr u \<Rightarrow>
                            markUploadCompleted t uploadId userId None None None None None now)
                 in case finished of
                      Inr t1 \<Rightarrow>
                        (Reply_completed (s3_key uploadRecord) (bucket uploadRecord)
                           (upload_type uploadRecord), t1, Some (uploadId, userId))
                    | Inl s3Error \<Rightarrow>
                        (case markUploadFailed t uploadId userId now of
                           Inl e \<Rightarrow> (Reply_error 500 ''Failed to complete upload'', t, None)
                         | Inr t1 \<Rightarrow> (Reply_error 500 ''Failed to complete upload'', t1, None))))))"

text \<open>\<^verbatim>\<open>POST /abort\<close>\<close>

definition abort ::
  "ObjectStore \<Rightarrow> uploads_table \<Rightarrow> string \<Rightarrow> string \<Rightarrow> nat \<Rightarrow> reply \<times> uploads_table" where
  "abort store t userId uploadId now =
     (if \<not> AbortUploadSchema uploadId then (Reply_error 400 ''Bad Request'', t)
      else
        (case getUploadRecord t uploadId userId of
           Inl e \<Rightarrow> (Reply_error 500 ''Failed to abort upload'', t)
         | Inr None \<Rightarrow> (Reply_error 404 ''Upload not found'', t)
         | Inr (Some uploadRecord) \<Rightarrow>
             (case (if upload_type uploadRecord = Multipart then
                      abortMultipartUpload store (bucket uploadRecord) (s3_key uploadRecord)
                        uploadId
                    else Inr ()) of
                Inl e \<Rightarrow> (Reply_error 500 ''Failed to abort upload'', t)
              | Inr u \<Rightarrow>
                  (case markUploadAborted t uploadId userId now of
                     Inl e \<Rightarrow> (Reply_error 500 ''Failed to abort upload'', t)
                   | Inr t1 \<Rightarrow> (Reply_success, t1)))))"

text \<open>\<^verbatim>\<open>GET /status\<close>\<close>

definition upload_status_route :: "uploads_table \<Rightarrow> string \<Rightarrow> string \<Rightarrow> reply" where
  "upload_status_route t userId uploadId =
     (if \<not> UploadStatusSchema uploadId then Reply_error 400 ''Bad Request''
      else
        (case getUploadRecord t uploadId userId of
           Inl e \<Rightarrow> Reply_error 500 ''Failed to get upload status''
         | Inr None \<Rightarrow> Reply_error 404 ''Upload not found''
         | Inr (Some uploadRecord) \<Rightarrow>
             (let (uploadedSize, totalParts) =
                    (if upload_type uploadRecord = Multipart then
                       (foldl (\<lambda>sum part. sum + size_bytes part) 0 (parts uploadRecord),
                        ceil_div (total_size uploadRecord) (10 * 1024 * 1024))
                     else
                       ((if status uploadRecord = Completed then total_size uploadRecord else 0),
                        1))
              in Reply_status
                   \<lparr> st_uploadId = uploadId, st_status = status uploadRecord,
                     st_uploadType = upload_type uploadRecord,
                     st_uploadedParts = parts uploadRecord, st_totalParts = totalParts,
                     st_uploadedSize = uploadedSize, st_totalSize = total_size uploadRecord \<rparr>)))"

section \<open>Calls in turn and interleaved\<close>

text \<open>
  A handler runs on one thread and gives way to other requests only where it awaits.
  A call of \<^verbatim>\<open>updateUploadPart\<close> is therefore two steps, the read and the write; a
  call that has read holds the record it has read. A schedule names, step by step, the
  call that goes on.
\<close>

datatype part_call =
    Not_started nat string nat
  | Has_read UploadRecord nat string nat
  | Resolved
  | Rejected js_error

fun step_call ::
  "uploads_table \<Rightarrow> string \<Rightarrow> string \<Rightarrow> nat \<Rightarrow> part_call \<Rightarrow> part_call \<times> uploads_table" where
  "step_call t uploadId userId now (Not_started partNo eTag nbytes) =
     (case getUploadRecord t uploadId userId of
        Inl e \<Rightarrow> (Rejected e, t)
      | Inr None \<Rightarrow> (Rejected (Error ''Upload record not found''), t)
      | Inr (Some record) \<Rightarrow> (Has_read record partNo eTag nbytes, t))"
| "step_call t uploadId userId now (Has_read record partNo eTag nbytes) =
     (case updateUploadPart_write t uploadId userId record partNo eTag nbytes now of
        Inl e \<Rightarrow> (Rejected e, t)
      | Inr t1 \<Rightarrow> (Resolved, t1))"
| "step_call t uploadId userId now Resolved = (Resolved, t)"
| "step_call t uploadId userId now (Rejected e) = (Rejected e, t)"

fun run_schedule ::
  "uploads_table \<Rightarrow> string \<Rightarrow> string \<Rightarrow> nat \<Rightarrow> part_call list \<Rightarrow> nat list
     \<Rightarrow> part_call list \<times> uploads_table" where
  "run_schedule t uploadId userId now calls [] = (calls, t)"
| "run_schedule t uploadId userId now calls (i # sched) =
     (if i < length calls then
        (case step_call t uploadId userId now (calls ! i) of
           (c, t1) \<Rightarrow> run_schedule t1 uploadId userId now (calls[i := c]) sched)
      else run_schedule t uploadId userId now calls sched)"

text \<open>Calls that run one after the other, each to its end; the first exception stops them.\<close>

fun update_parts_in_turn ::
  "uploads_table \<Rightarrow> string \<Rightarrow> string \<Rightarrow> nat \<Rightarrow> (nat \<times> string \<times> nat) list
     \<Rightarrow> js_error + uploads_table" where
  "update_parts_in_turn t uploadId userId now [] = Inr t"
| "update_parts_in_turn t uploadId userId now ((partNo, eTag, nbytes) # reports) =
     (case updateUploadPart t uploadId userId partNo eTag nbytes now of
        Inl e \<Rightarrow> Inl e
      | Inr t1 \<Rightarrow> update_parts_in_turn t1 uploadId userId now reports)"

definition reported_part :: "nat \<Rightarrow> nat \<times> string \<times> nat \<Rightarrow> UploadPart" where
  "reported_part now rep =
     (case rep of (partNo, eTag, nbytes) \<Rightarrow>
        \<lparr> partNumber = partNo, etag = Some eTag, size_bytes = nbytes, uploadedAt = Some now \<rparr>)"

text \<open>
  The handler of \<^verbatim>\<open>POST /complete\<close> awaits the read of the record (line 269), for a
  multipart upload the completion in the object store (line 290), then the update that
  marks the record completed (line 303), and in its \<^verbatim>\<open>catch\<close> the update that marks
  it failed (line 320). What it does between two awaits is one step; a call that has read
  holds the record it has read. Each call has the object store's answers to it.
\<close>

datatype complete_call =
    Complete_not_started "(nat \<times> string) list option"
  | Complete_has_read UploadRecord "(nat \<times> string) list option"
  | Complete_store_done UploadRecord
  | Complete_store_failed
  | Complete_replied reply "(string \<times> string) option"

fun step_complete ::
  "ObjectStore \<Rightarrow> uploads_table \<Rightarrow> string \<Rightarrow> string \<Rightarrow> nat \<Rightarrow> complete_call
     \<Rightarrow> complete_call \<times> uploads_table" where
  "step_complete store t userId uploadId now (Complete_not_started ps) =
     (if \<not> CompleteUploadSchema uploadId ps then
        (Complete_replied (Reply_error 400 ''Bad Request'') None, t)
      else
        (case getUploadRecord t uploadId userId of
           Inl e \<Rightarrow> (Complete_replied (Reply_error 500 ''Failed to complete upload'') None, t)
         | Inr None \<Rightarrow> (Complete_replied (Reply_error 404 ''Upload not found'') None, t)
         | Inr (Some uploadRecord) \<Rightarrow>
             (if status uploadRecord \<noteq> Active then
                (Complete_replied (Reply_error 400 ''Upload is not active'') None, t)
              else if upload_type uploadRecord = Multipart \<and> (ps = None \<or> ps = Some []) then
                (Complete_replied (Reply_error 400 ''Parts required for multipart upload'') None,
                 t)
              else (Complete_has_read uploadRecord ps, t))))"
| "step_complete store t userId uploadId now (Complete_has_read uploadRecord ps) =
     (if upload_type uploadRecord = Multipart then
        (case completeMultipartUpload store (bucket uploadRecord) (s3_key uploadRecord)
                uploadId (case ps of Some l \<Rightarrow> l | None \<Rightarrow> []) of
           Inl s3Error \<Rightarrow> (Complete_store_failed, t)
         | Inr u \<Rightarrow> (Complete_store_done uploadRecord, t))
      else
        (case markUploadCompleted t uploadId userId None None None None None now of
           Inl e \<Rightarrow> (Complete_store_failed, t)
         | Inr t1 \<Rightarrow>
             (Complete_replied
                (Reply_completed (s3_key uploadRecord) (bucket uploadRecord)
                   (upload_type uploadRecord))
                (Some (uploadId, userId)), t1)))"
| "step_complete store t userId uploadId now (Complete_store_done uploadRecord) =
     (case markUploadCompleted t uploadId userId None None None None None now of
        Inl e \<Rightarrow> (Complete_store_failed, t)
      | Inr t1 \<Rightarrow>
          (Complete_replied
             (Reply_completed (s3_key uploadRecord) (bucket uploadRecord)
                (upload_type uploadRecord))
             (Some (uploadId, userId)), t1))"
| "step_complete store t userId uploadId now Complete_store_failed =
     (case markUploadFailed t uploadId userId now of
        Inl e \<Rightarrow> (Complete_replied (Reply_error 500 ''Failed to complete upload'') None, t)
      | Inr t1 \<Rightarrow> (Complete_replied (Reply_error 500 ''Failed to complete upload'') None, t1))"
| "step_complete store t userId uploadId now (Complete_replied r job) =
     (Complete_replied r job, t)"

fun run_complete_schedule ::
  "uploads_table \<Rightarrow> string \<Rightarrow> string \<Rightarrow> nat \<Rightarrow> (ObjectStore \<times> complete_call) list \<Rightarrow> nat list
     \<Rightarrow> (ObjectStore \<times> complete_call) list \<times> uploads_table" where
  "run_complete_schedule t userId uploadId now calls [] = (calls, t)"
| "run_complete_schedule t userId uploadId now calls (i # sched) =
     (if i < length calls then
        (case calls ! i of
           (store, c) \<Rightarrow>
             (case step_complete store t userId uploadId now c of
                (c1, t1) \<Rightarrow>
                  run_complete_schedule t1 userId uploadId now (calls[i := (store, c1)]) sched))
      else run_complete_schedule t userId uploadId now calls sched)"

section \<open>Sample data\<close>

text \<open>
  The row \<^verbatim>\<open>createUploadRecord\<close> inserts for a multipart upload of ten million bytes,
  the service with its two buckets, and an object store that answers every command.
\<close>

definition sample_upload :: UploadRecord where
  "sample_upload =
     \<lparr> row_id = ''row-1'', user_id = ''alice'', upload_id = ''mp-1'',
       s3_key = ''alice/1000-cat.png'', bucket = ''temp'', filename = ''cat.png'',
       content_type = ''image/png'', total_size = 10000000, status = Active,
       processing_status = Some Pending, processing_progress = Some 0,
       processing_message = None, upload_type = Multipart, parts = [],
       created_at = 1000, updated_at = 1000, completed_at = None,
       final_s3_key = None, final_bucket = None, thumbnail_s3_key = None,
       thumbnail_url = None, thumbnail_cloudinary_url = None \<rparr>"

definition sample_service :: S3UploadService where
  "sample_service = \<lparr> tempBucket = ''temp'', finalBucket = ''final'' \<rparr>"

definition sample_store :: ObjectStore where
  "sample_store =
     \<lparr> create_answer = Inr (Some ''mp-1''), complete_answer = (\<lambda>ps. None),
       abort_answer = None, copy_answer = None, delete_answer = (\<lambda>b k. None) \<rparr>"

text \<open>An object store that refuses to complete a multipart upload.\<close>

definition sample_refusing_store :: ObjectStore where
  "sample_refusing_store =
     \<lparr> create_answer = Inr (Some ''mp-1''),
       complete_answer = (\<lambda>ps. Some (Error ''NoSuchUpload'')),
       abort_answer = None, copy_answer = None, delete_answer = (\<lambda>b k. None) \<rparr>"

section \<open>The record store: lookups and updates\<close>

lemma getUploadRecord_eq:
  "getUploadRecord t uploadId userId =
     Inr (case filter (eq_upload uploadId userId) t of [r] \<Rightarrow> Some r | _ \<Rightarrow> None)"
  by (simp add: getUploadRecord_def select_single_def split: list.split)

lemma getUploadRecord_SomeD:
  "getUploadRecord t uploadId userId = Inr (Some r) \<Longrightarrow> filter (eq_upload uploadId userId) t = [r]"
  by (simp add: getUploadRecord_eq split: list.splits)

lemma getUploadStatus_eq:
  "filter (eq_upload uploadId userId) t = [r] \<Longrightarrow>
   getUploadStatus t uploadId userId =
     Inr (Some \<lparr> upload_status = status r,
                 view_processing_status = processing_status r,
                 view_processing_progress = processing_progress r,
                 view_processing_message = processing_message r,
                 ready_for_display =
                   (status r = Completed \<and>
                    (processing_status r = Some Processed \<or> processing_status r = None) \<and>
                    final_s3_key r \<noteq> None) \<rparr>)"
  by (simp add: getUploadStatus_def select_single_def)

lemma filter_update_rows:
  assumes "\<And>r. upload_id (f r) = upload_id r" "\<And>r. user_id (f r) = user_id r"
  shows "filter (eq_upload u w) (map (\<lambda>r. if eq_upload u w r then f r else r) t)
         = map f (filter (eq_upload u w) t)"
  using assms by (induction t) (auto simp: eq_upload_def)


lemma updateUploadPart_found:
  assumes "filter (eq_upload uploadId userId) t = [r]"
  shows "updateUploadPart t uploadId userId partNo eTag nbytes now =
           Inr (map (\<lambda>x. if eq_upload uploadId userId x
                  then x\<lparr> parts := upsert_part (parts r)
                                      \<lparr> partNumber = partNo, etag = Some eTag,
                                        size_bytes = nbytes, uploadedAt = Some now \<rparr>,
                          updated_at := now \<rparr>
                  else x) t)"
  using assms
  by (simp add: updateUploadPart_def updateUploadPart_write_def getUploadRecord_eq
        update_rows_def Let_def)

lemma getUploadRecord_after_update:
  assumes "filter (eq_upload uploadId userId) t = [r]"
      and "\<And>x. upload_id (f x) = upload_id x" "\<And>x. user_id (f x) = user_id x"
  shows "getUploadRecord (map (\<lambda>x. if eq_upload uploadId userId x then f x else x) t)
           uploadId userId = Inr (Some (f r))"
  by (simp add: getUploadRecord_eq filter_update_rows [of f, OF assms(2,3)] assms(1))

text \<open>The equations that evaluate the model on the sample data.\<close>

lemmas route_defs =
  complete_part_def CompletePartSchema_def complete_def CompleteUploadSchema_def abort_def
  AbortUploadSchema_def upload_status_route_def UploadStatusSchema_def initiate_def
  InitiateUploadSchema_def MULTIPART_THRESHOLD_def ceil_div_def

lemmas store_defs =
  getUploadRecord_def getUploadStatus_def select_single_def eq_upload_def update_rows_def
  insert_row_def updateUploadPart_def updateUploadPart_write_def upsert_part_def
  markUploadCompleted_def markUploadAborted_def markUploadFailed_def set_if_given_def
  createUploadRecord_def

lemmas s3_defs =
  initiateMultipartUpload_def completeMultipartUpload_def abortMultipartUpload_def
  copyObject_def deleteObject_def generateS3Key_def show_nat.simps

lemmas processing_defs =
  processUpload_def processUpload_with_def processUpload_body_def performVirusScan_def
  cleanupFailedProcessing_def processing_error_def

lemmas sample_defs = sample_upload_def sample_service_def sample_store_def

section \<open>The readiness predicate\<close>

text \<open>
  C3. For every record, \<^verbatim>\<open>ready_for_display\<close> of the status the store reports is true
  exactly when the status is completed, the processing status is processed or null, and
  the final key is set; it is never true while the final key is unset.
\<close>

theorem ready_for_display_iff:
  assumes "getUploadRecord t uploadId userId = Inr (Some r)"
  shows "\<exists>v. getUploadStatus t uploadId userId = Inr (Some v) \<and>
             (ready_for_display v \<longleftrightarrow>
                status r = Completed \<and>
                (processing_status r = Some Processed \<or> processing_status r = None) \<and>
                final_s3_key r \<noteq> None) \<and>
             \<not> (ready_for_display v \<and> final_s3_key r = None)"
  using getUploadStatus_eq [OF getUploadRecord_SomeD [OF assms]] by simp

theorem ready_for_display_iff_witness:
  "getUploadRecord
     [sample_upload\<lparr> status := Completed, processing_status := Some Processed,
                     final_s3_key := Some ''alice/1000-cat.png'' \<rparr>] ''mp-1'' ''alice''
     = Inr (Some (sample_upload\<lparr> status := Completed, processing_status := Some Processed,
                                 final_s3_key := Some ''alice/1000-cat.png'' \<rparr>)) \<and>
   (\<exists>v. getUploadStatus
          [sample_upload\<lparr> status := Completed, processing_status := Some Processed,
                          final_s3_key := Some ''alice/1000-cat.png'' \<rparr>] ''mp-1'' ''alice''
          = Inr (Some v) \<and> ready_for_display v)"
proof -
  let ?r = "sample_upload\<lparr> status := Completed, processing_status := Some Processed,
                           final_s3_key := Some ''alice/1000-cat.png'' \<rparr>"
  have found: "getUploadRecord [?r] ''mp-1'' ''alice'' = Inr (Some ?r)"
    by (simp add: getUploadRecord_eq eq_upload_def sample_upload_def)
  from ready_for_display_iff [OF found] have
    "\<exists>v. getUploadStatus [?r] ''mp-1'' ''alice'' = Inr (Some v) \<and> ready_for_display v"
    by simp
  with found show ?thesis by (rule conjI)
qed

section \<open>Part reports\<close>

lemma findIndex_None: "findIndex p xs = None \<longleftrightarrow> (\<forall>x\<in>set xs. \<not> p x)"
  by (induction xs) (auto split: option.splits)

lemma upsert_part_fresh:
  "partNumber np \<notin> partNumber ` set ps \<Longrightarrow> upsert_part ps np = ps @ [np]"
proof -
  assume "partNumber np \<notin> partNumber ` set ps"
  then have "findIndex (\<lambda>p. partNumber p = partNumber np) ps = None"
    unfolding findIndex_None by (metis image_eqI)
  then show ?thesis by (simp add: upsert_part_def)
qed

lemma map_partNumber_upsert_present:
  "partNumber np \<in> partNumber ` set ps \<Longrightarrow>
     map partNumber (upsert_part ps np) = map partNumber ps"
proof (induction ps)
  case Nil
  then show ?case by simp
next
  case (Cons p ps)
  show ?case
  proof (cases "partNumber p = partNumber np")
    case True
    then show ?thesis by (simp add: upsert_part_def)
  next
    case False
    with Cons.prems have "partNumber np \<in> partNumber ` set ps" by auto
    from Cons.IH [OF this] False show ?thesis
      by (auto simp: upsert_part_def split: option.splits)
  qed
qed

lemma filter_upsert_present:
  "distinct (map partNumber ps) \<Longrightarrow> partNumber np \<in> partNumber ` set ps \<Longrightarrow>
     filter (\<lambda>p. partNumber p = partNumber np) (upsert_part ps np) = [np]"
proof (induction ps)
  case Nil
  then show ?case by simp
next
  case (Cons p ps)
  show ?case
  proof (cases "partNumber p = partNumber np")
    case True
    with Cons.prems have "partNumber np \<notin> partNumber ` set ps" by simp
    then have "\<forall>q\<in>set ps. partNumber q \<noteq> partNumber np" by (metis image_eqI)
    then have "filter (\<lambda>p. partNumber p = partNumber np) ps = []"
      by (simp add: filter_empty_conv)
    with True show ?thesis by (simp add: upsert_part_def)
  next
    case False
    with Cons.prems have "partNumber np \<in> partNumber ` set ps" "distinct (map partNumber ps)"
      by auto
    from Cons.IH [OF this(2) this(1)] False show ?thesis
      by (auto simp: upsert_part_def split: option.splits)
  qed
qed

lemma filter_others_upsert:
  "filter (\<lambda>p. partNumber p \<noteq> partNumber np) (upsert_part ps np)
     = filter (\<lambda>p. partNumber p \<noteq> partNumber np) ps"
proof (induction ps)
  case Nil
  then show ?case by (simp add: upsert_part_def)
next
  case (Cons p ps)
  then show ?case
    by (auto simp: upsert_part_def split: option.splits)
qed

text \<open>
  C5. A part report on a record whose parts have distinct numbers (as they have from the
  empty list on) leaves exactly one part with the reported number, the reported one; the
  other parts stay; a number already present does not lengthen the list, a new number
  lengthens it by one.
\<close>

theorem updateUploadPart_replaces_or_appends:
  assumes found: "getUploadRecord t uploadId userId = Inr (Some r)"
      and dist: "distinct (map partNumber (parts r))"
  shows "\<exists>t1 r1.
           updateUploadPart t uploadId userId partNo eTag nbytes now = Inr t1 \<and>
           getUploadRecord t1 uploadId userId = Inr (Some r1) \<and>
           filter (\<lambda>p. partNumber p = partNo) (parts r1) =
             [\<lparr> partNumber = partNo, etag = Some eTag, size_bytes = nbytes,
                uploadedAt = Some now \<rparr>] \<and>
           filter (\<lambda>p. partNumber p \<noteq> partNo) (parts r1) =
             filter (\<lambda>p. partNumber p \<noteq> partNo) (parts r) \<and>
           distinct (map partNumber (parts r1)) \<and>
           length (parts r1) =
             (if partNo \<in> partNumber ` set (parts r) then length (parts r)
              else Suc (length (parts r)))"
proof -
  let ?np = "\<lparr> partNumber = partNo, etag = Some eTag, size_bytes = nbytes,
               uploadedAt = Some now \<rparr>"
  let ?f = "\<lambda>x. x\<lparr> parts := upsert_part (parts r) ?np, updated_at := now \<rparr>"
  let ?t1 = "map (\<lambda>x. if eq_upload uploadId userId x then ?f x else x) t"
  have sel: "filter (eq_upload uploadId userId) t = [r]"
    using found by (rule getUploadRecord_SomeD)
  have run: "updateUploadPart t uploadId userId partNo eTag nbytes now = Inr ?t1"
    using sel by (rule updateUploadPart_found)
  have again: "getUploadRecord ?t1 uploadId userId = Inr (Some (?f r))"
    using sel by (rule getUploadRecord_after_update) simp_all
  have one: "filter (\<lambda>p. partNumber p = partNo) (upsert_part (parts r) ?np) = [?np]"
  proof (cases "partNo \<in> partNumber ` set (parts r)")
    case True
    then show ?thesis using filter_upsert_present [of "parts r" ?np] dist by simp
  next
    case False
    then have "\<forall>q\<in>set (parts r). partNumber q \<noteq> partNo" by (metis image_eqI)
    then have "filter (\<lambda>p. partNumber p = partNo) (parts r) = []"
      by (simp add: filter_empty_conv)
    with False show ?thesis using upsert_part_fresh [of ?np "parts r"] by simp
  qed
  have others: "filter (\<lambda>p. partNumber p \<noteq> partNo) (upsert_part (parts r) ?np) =
                  filter (\<lambda>p. partNumber p \<noteq> partNo) (parts r)"
    using filter_others_upsert [of ?np "parts r"] by simp
  have numbers: "map partNumber (upsert_part (parts r) ?np) =
                   (if partNo \<in> partNumber ` set (parts r) then map partNumber (parts r)
                    else map partNumber (parts r) @ [partNo])"
    using map_partNumber_upsert_present [of ?np "parts r"] upsert_part_fresh [of ?np "parts r"]
    by simp
  have dist1: "distinct (map partNumber (upsert_part (parts r) ?np))"
    unfolding numbers using dist by simp
  have len: "length (upsert_part (parts r) ?np) =
               (if partNo \<in> partNumber ` set (parts r) then length (parts r)
                else Suc (length (parts r)))"
    using arg_cong [OF numbers, of length] by (simp split: if_splits)
  show ?thesis
    by (intro exI [of _ ?t1] exI [of _ "?f r"]) (simp add: run again one others dist1 len)
qed

theorem updateUploadPart_replaces_or_appends_witness:
  "\<exists>t1 r1.
     updateUploadPart
       [sample_upload\<lparr> parts := [\<lparr> partNumber = 1, etag = Some ''a'', size_bytes = 5,
                                     uploadedAt = Some 1500 \<rparr>] \<rparr>]
       ''mp-1'' ''alice'' 1 ''b'' 7 2000 = Inr t1 \<and>
     getUploadRecord t1 ''mp-1'' ''alice'' = Inr (Some r1) \<and>
     parts r1 = [\<lparr> partNumber = 1, etag = Some ''b'', size_bytes = 7, uploadedAt = Some 2000 \<rparr>]"
proof -
  let ?r = "sample_upload\<lparr> parts := [\<lparr> partNumber = 1, etag = Some ''a'', size_bytes = 5,
                                        uploadedAt = Some 1500 \<rparr>] \<rparr>"
  have found: "getUploadRecord [?r] ''mp-1'' ''alice'' = Inr (Some ?r)"
    by (simp add: getUploadRecord_eq eq_upload_def sample_upload_def)
  have dist: "distinct (map partNumber (parts ?r))"
    by simp
  from updateUploadPart_replaces_or_appends [OF found dist, of 1 "''b''" 7 2000]
  obtain t1 r1 where
    run: "updateUploadPart [?r] ''mp-1'' ''alice'' 1 ''b'' 7 2000 = Inr t1" and
    again: "getUploadRecord t1 ''mp-1'' ''alice'' = Inr (Some r1)" and
    one: "filter (\<lambda>p. partNumber p = 1) (parts r1) =
            [\<lparr> partNumber = 1, etag = Some ''b'', size_bytes = 7, uploadedAt = Some 2000 \<rparr>]" and
    others: "filter (\<lambda>p. partNumber p \<noteq> 1) (parts r1) = filter (\<lambda>p. partNumber p \<noteq> 1) (parts ?r)"
    by blast
  from others have none: "filter (\<lambda>p. partNumber p \<noteq> 1) (parts r1) = []"
    by simp
  have "parts r1 = filter (\<lambda>p. partNumber p = 1) (parts r1)"
    using none by (simp add: filter_empty_conv filter_id_conv)
  with one have "parts r1 = [\<lparr> partNumber = 1, etag = Some ''b'', size_bytes = 7,
                              uploadedAt = Some 2000 \<rparr>]"
    by simp
  with run again show ?thesis by blast
qed

section \<open>Initiate\<close>

lemma initiate_multipart:
  assumes "InitiateUploadSchema fileName contentType totalSize chunkSizeOpt"
      and "5 * 1024 * 1024 \<le> totalSize"
      and "create_answer store = Inr (Some sid)" and "sid \<noteq> []"
      and "sid \<notin> set (map upload_id t)"
  shows "initiate svc store t userId fileName contentType totalSize chunkSizeOpt now rnd newId =
           (Reply_initiate
              \<lparr> resp_uploadId = sid,
                resp_s3Key = userId @ ''/'' @ show_nat now @ ''-'' @ fileName,
                resp_uploadType = Multipart,
                resp_chunkSize = (case chunkSizeOpt of None \<Rightarrow> 10 * 1024 * 1024 | Some c \<Rightarrow> c),
                resp_totalChunks =
                  ceil_div totalSize
                    (case chunkSizeOpt of None \<Rightarrow> 10 * 1024 * 1024 | Some c \<Rightarrow> c) \<rparr>,
            t @ [\<lparr> row_id = newId, user_id = userId, upload_id = sid,
                    s3_key = userId @ ''/'' @ show_nat now @ ''-'' @ fileName,
                    bucket = tempBucket svc, filename = fileName,
                    content_type = contentType, total_size = totalSize, status = Active,
                    processing_status = Some Pending, processing_progress = Some 0,
                    processing_message = None, upload_type = Multipart, parts = [],
                    created_at = now, updated_at = now, completed_at = None,
                    final_s3_key = None, final_bucket = None, thumbnail_s3_key = None,
                    thumbnail_url = None, thumbnail_cloudinary_url = None \<rparr>])"
  using assms
  by (simp add: initiate_def MULTIPART_THRESHOLD_def initiateMultipartUpload_def
        createUploadRecord_def insert_row_def Let_def)

lemma initiate_single:
  assumes "InitiateUploadSchema fileName contentType totalSize chunkSizeOpt"
      and "totalSize < 5 * 1024 * 1024"
      and "''single-'' @ show_nat now @ ''-'' @ rnd \<notin> set (map upload_id t)"
  shows "initiate svc store t userId fileName contentType totalSize chunkSizeOpt now rnd newId =
           (Reply_initiate
              \<lparr> resp_uploadId = ''single-'' @ show_nat now @ ''-'' @ rnd,
                resp_s3Key = generateS3Key userId fileName now,
                resp_uploadType = Single,
                resp_chunkSize = totalSize,
                resp_totalChunks = 1 \<rparr>,
            t @ [\<lparr> row_id = newId, user_id = userId,
                    upload_id = ''single-'' @ show_nat now @ ''-'' @ rnd,
                    s3_key = generateS3Key userId fileName now,
                    bucket = tempBucket svc, filename = fileName,
                    content_type = contentType, total_size = totalSize, status = Active,
                    processing_status = Some Pending, processing_progress = Some 0,
                    processing_message = None, upload_type = Single, parts = [],
                    created_at = now, updated_at = now, completed_at = None,
                    final_s3_key = None, final_bucket = None, thumbnail_s3_key = None,
                    thumbnail_url = None, thumbnail_cloudinary_url = None \<rparr>])"
  using assms
  by (simp add: initiate_def MULTIPART_THRESHOLD_def createUploadRecord_def insert_row_def Let_def)

text \<open>
  C8. For every body the schema admits, when the object store answers with an upload
  identifier and the identifiers of the new upload are not yet in the table, the handler
  replies with the upload type multipart exactly when the total size is at least
  \<open>5 * 1024 * 1024\<close> bytes and single exactly when it is below, and stores a row of that
  type.
\<close>

theorem initiate_upload_type:
  assumes valid: "InitiateUploadSchema fileName contentType totalSize chunkSizeOpt"
      and s3: "create_answer store = Inr (Some sid)" and sid: "sid \<noteq> []"
      and new_multipart: "sid \<notin> set (map upload_id t)"
      and new_single: "''single-'' @ show_nat now @ ''-'' @ rnd \<notin> set (map upload_id t)"
  shows "\<exists>resp row.
           initiate svc store t userId fileName contentType totalSize chunkSizeOpt now rnd newId
             = (Reply_initiate resp, t @ [row]) \<and>
           (resp_uploadType resp = Multipart \<longleftrightarrow> 5 * 1024 * 1024 \<le> totalSize) \<and>
           (resp_uploadType resp = Single \<longleftrightarrow> totalSize < 5 * 1024 * 1024) \<and>
           upload_type row = resp_uploadType resp"
proof (cases "5 * 1024 * 1024 \<le> totalSize")
  case True
  show ?thesis
    unfolding initiate_multipart [OF valid True s3 sid new_multipart] using True by simp
next
  case False
  then have small: "totalSize < 5 * 1024 * 1024" by simp
  show ?thesis
    unfolding initiate_single [OF valid small new_single] using small by simp
qed

theorem initiate_upload_type_witness:
  "(\<exists>resp row.
      initiate sample_service sample_store [] ''alice'' ''cat.png'' ''image/png'' 10000000 None
        1000 ''abc'' ''row-1'' = (Reply_initiate resp, [row]) \<and>
      resp_uploadType resp = Multipart \<and> upload_type row = Multipart) \<and>
   (\<exists>resp row.
      initiate sample_service sample_store [] ''alice'' ''cat.png'' ''image/png'' 1000 None
        1000 ''abc'' ''row-1'' = (Reply_initiate resp, [row]) \<and>
      resp_uploadType resp = Single \<and> upload_type row = Single)"
proof -
  have s3: "create_answer sample_store = Inr (Some ''mp-1'')"
    by (simp add: sample_store_def)
  have sid: "''mp-1'' \<noteq> []"
    by simp
  have new_multipart: "''mp-1'' \<notin> set (map upload_id [])"
    by simp
  have new_single: "''single-'' @ show_nat 1000 @ ''-'' @ ''abc'' \<notin> set (map upload_id [])"
    by simp
  have large: "InitiateUploadSchema ''cat.png'' ''image/png'' 10000000 None"
    by (simp add: InitiateUploadSchema_def)
  have small: "InitiateUploadSchema ''cat.png'' ''image/png'' 1000 None"
    by (simp add: InitiateUploadSchema_def)
  from initiate_upload_type [OF large s3 sid new_multipart new_single,
      of sample_service "''alice''" "''row-1''"]
  have first: "\<exists>resp row.
      initiate sample_service sample_store [] ''alice'' ''cat.png'' ''image/png'' 10000000 None
        1000 ''abc'' ''row-1'' = (Reply_initiate resp, [row]) \<and>
      resp_uploadType resp = Multipart \<and> upload_type row = Multipart"
    by auto
  from initiate_upload_type [OF small s3 sid new_multipart new_single,
      of sample_service "''alice''" "''row-1''"]
  have second: "\<exists>resp row.
      initiate sample_service sample_store [] ''alice'' ''cat.png'' ''image/png'' 1000 None
        1000 ''abc'' ''row-1'' = (Reply_initiate resp, [row]) \<and>
      resp_uploadType resp = Single \<and> upload_type row = Single"
    by auto
  from first second show ?thesis by (rule conjI)
qed

section \<open>The number of parts the status reports\<close>

text \<open>\<open>ceil_div\<close> is the ceiling of the quotient.\<close>

lemma neg_div_neg:
  fixes a b :: int
  assumes b: "0 < b"
  shows "- (- a div b) = (a + b - 1) div b"
proof (cases "a mod b = 0")
  case True
  then obtain q where q: "a = b * q" by auto
  have "(b * q + b - 1) div b = (b * q + (b - 1)) div b" by (simp add: algebra_simps)
  also have "\<dots> = q + (b - 1) div b" using b by simp
  also have "(b - 1) div b = 0" using b by (simp add: div_pos_pos_trivial)
  finally have "(a + b - 1) div b = q" using q by simp
  moreover have "- a div b = - q" using q b by (simp add: zdiv_zminus1_eq_if)
  ultimately show ?thesis by simp
next
  case False
  have pos: "0 < a mod b" using False b by (simp add: less_le)
  have lt: "a mod b < b" using b by simp
  have "a + b - 1 = b * (a div b + 1) + (a mod b - 1)"
    by (simp add: algebra_simps)
  then have "(a + b - 1) div b = (b * (a div b + 1) + (a mod b - 1)) div b"
    by (rule arg_cong [where f = "\<lambda>x. x div b"])
  also have "\<dots> = (a div b + 1) + (a mod b - 1) div b" using b by simp
  also have "(a mod b - 1) div b = 0" using pos lt by (simp add: div_pos_pos_trivial)
  finally have r: "(a + b - 1) div b = a div b + 1" by simp
  have "- a div b = - (a div b) - 1"
    using False b by (simp add: zdiv_zminus1_eq_if)
  with r show ?thesis by simp
qed

lemma ceil_div_ceiling: "0 < b \<Longrightarrow> int (ceil_div a b) = \<lceil>real a / real b\<rceil>"
proof -
  assume b: "0 < b"
  have "\<lceil>real a / real b\<rceil> = \<lceil>real_of_int (int a) / real_of_int (int b)\<rceil>" by simp
  also have "\<dots> = - (- int a div int b)" by (rule ceiling_divide_eq_div)
  also have "\<dots> = (int a + int b - 1) div int b" using b by (intro neg_div_neg) simp
  also have "\<dots> = int ((a + b - 1) div b)" using b by (simp add: zdiv_int of_nat_diff)
  finally show ?thesis by (simp add: ceil_div_def)
qed








section \<open>Complete\<close>

lemma complete_repliedD:
  assumes "complete store t userId uploadId ps now = (Reply_completed k b ty, t1, job)"
  shows "CompleteUploadSchema uploadId ps \<and>
         (\<exists>r. filter (eq_upload uploadId userId) t = [r] \<and> status r = Active \<and>
              markUploadCompleted t uploadId userId None None None None None now = Inr t1)"
  using assms
  by (auto simp: complete_def getUploadRecord_eq Let_def markUploadFailed_def update_rows_def
        split: if_splits list.splits sum.splits)

lemma complete_not_active:
  assumes "CompleteUploadSchema uploadId ps"
      and "filter (eq_upload uploadId userId) t = [r]" and "status r \<noteq> Active"
  shows "complete store t userId uploadId ps now = (Reply_error 400 ''Upload is not active'', t, None)"
  using assms by (simp add: complete_def getUploadRecord_eq)

text \<open>The steps of one call, taken together, are the handler.\<close>

lemma complete_steps_alone:
  "run_complete_schedule t userId uploadId now [(store, Complete_not_started ps)] [0, 0, 0, 0]
   = (case complete store t userId uploadId ps now of
        (rep, t1, job) \<Rightarrow> ([(store, Complete_replied rep job)], t1))"
  by (simp add: complete_def getUploadRecord_eq completeMultipartUpload_def
        markUploadCompleted_def markUploadFailed_def update_rows_def Let_def
        split: list.splits option.splits)

lemma step_complete_not_active:
  assumes "CompleteUploadSchema uploadId ps"
      and "filter (eq_upload uploadId userId) t = [r]" and "status r \<noteq> Active"
  shows "step_complete store t userId uploadId now (Complete_not_started ps) =
           (Complete_replied (Reply_error 400 ''Upload is not active'') None, t)"
  using assms by (simp add: getUploadRecord_eq)

text \<open>
  C4, as stated: of two calls of complete for the same upload that both read the record
  before either marks it completed, both pass the check of the status. When the object
  store completes the upload for both, the second call replies with success as the first
  did; when it refuses the second, the second call marks the record failed that the first
  had marked completed.
\<close>

theorem overlapping_completes_pass_the_guard:
  "map snd (fst (run_complete_schedule [sample_upload] ''alice'' ''mp-1'' 1003
      [(sample_store, Complete_not_started (Some [(1, ''etag-1''), (2, ''etag-2'')])),
       (sample_store, Complete_not_started (Some [(1, ''etag-1''), (2, ''etag-2'')]))]
      [0, 1, 0, 0, 1, 1]))
   = [Complete_replied (Reply_completed ''alice/1000-cat.png'' ''temp'' Multipart)
        (Some (''mp-1'', ''alice'')),
      Complete_replied (Reply_completed ''alice/1000-cat.png'' ''temp'' Multipart)
        (Some (''mp-1'', ''alice''))] \<and>
   map snd (fst (run_complete_schedule [sample_upload] ''alice'' ''mp-1'' 1003
      [(sample_store, Complete_not_started (Some [(1, ''etag-1''), (2, ''etag-2'')])),
       (sample_refusing_store, Complete_not_started (Some [(1, ''etag-1''), (2, ''etag-2'')]))]
      [0, 1, 0, 0, 1, 1]))
   = [Complete_replied (Reply_completed ''alice/1000-cat.png'' ''temp'' Multipart)
        (Some (''mp-1'', ''alice'')),
      Complete_replied (Reply_error 500 ''Failed to complete upload'') None] \<and>
   snd (run_complete_schedule [sample_upload] ''alice'' ''mp-1'' 1003
      [(sample_store, Complete_not_started (Some [(1, ''etag-1''), (2, ''etag-2'')])),
       (sample_refusing_store, Complete_not_started (Some [(1, ''etag-1''), (2, ''etag-2'')]))]
      [0, 1, 0, 0])
   = [sample_upload\<lparr> status := Completed, completed_at := Some 1003, updated_at := 1003 \<rparr>] \<and>
   snd (run_complete_schedule [sample_upload] ''alice'' ''mp-1'' 1003
      [(sample_store, Complete_not_started (Some [(1, ''etag-1''), (2, ''etag-2'')])),
       (sample_refusing_store, Complete_not_started (Some [(1, ''etag-1''), (2, ''etag-2'')]))]
      [0, 1, 0, 0, 1, 1])
   = [sample_upload\<lparr> status := Failed, completed_at := Some 1003, updated_at := 1003 \<rparr>]"
  by (simp add: route_defs store_defs s3_defs sample_defs sample_refusing_store_def)

text \<open>
  C4, amended. When a call of complete replies with success, the record was active and is
  completed afterwards, and a second call for the same upload and owner that reads the
  record after that, whatever the object store answers and whatever parts it names,
  replies 400 \<^verbatim>\<open>Upload is not active\<close> at its first step and leaves the table as it is.
\<close>

theorem complete_twice:
  assumes first: "complete store t userId uploadId ps now = (Reply_completed k b ty, t1, job)"
      and valid2: "CompleteUploadSchema uploadId ps2"
  shows "\<exists>r r1. getUploadRecord t uploadId userId = Inr (Some r) \<and> status r = Active \<and>
           getUploadRecord t1 uploadId userId = Inr (Some r1) \<and> status r1 = Completed \<and>
           complete store2 t1 userId uploadId ps2 now2 =
             (Reply_error 400 ''Upload is not active'', t1, None) \<and>
           step_complete store2 t1 userId uploadId now2 (Complete_not_started ps2) =
             (Complete_replied (Reply_error 400 ''Upload is not active'') None, t1)"
proof -
  from complete_repliedD [OF first] obtain r where
    sel: "filter (eq_upload uploadId userId) t = [r]" and active: "status r = Active" and
    marked: "markUploadCompleted t uploadId userId None None None None None now = Inr t1"
    by blast
  let ?f = "\<lambda>x. x\<lparr> status := Completed, completed_at := Some now, updated_at := now \<rparr>"
  from marked have t1: "t1 = map (\<lambda>x. if eq_upload uploadId userId x then ?f x else x) t"
    by (simp add: markUploadCompleted_def update_rows_def set_if_given_def)
  have sel1: "filter (eq_upload uploadId userId) t1 = [?f r]"
    unfolding t1 using sel by (simp add: filter_update_rows [of ?f])
  have second: "complete store2 t1 userId uploadId ps2 now2 =
                  (Reply_error 400 ''Upload is not active'', t1, None)"
    using valid2 sel1 by (rule complete_not_active) simp
  have step: "step_complete store2 t1 userId uploadId now2 (Complete_not_started ps2) =
                (Complete_replied (Reply_error 400 ''Upload is not active'') None, t1)"
    using valid2 sel1 by (rule step_complete_not_active) simp
  have "getUploadRecord t uploadId userId = Inr (Some r)"
    using sel by (simp add: getUploadRecord_eq)
  moreover have "getUploadRecord t1 uploadId userId = Inr (Some (?f r))"
    using sel1 by (simp add: getUploadRecord_eq)
  moreover have "status (?f r) = Completed" by simp
  ultimately show ?thesis using active second step by blast
qed

theorem complete_twice_witness:
  "complete sample_store [sample_upload] ''alice'' ''mp-1''
     (Some [(2, ''etag-2''), (1, ''etag-1'')]) 1003
     = (Reply_completed ''alice/1000-cat.png'' ''temp'' Multipart,
        [sample_upload\<lparr> status := Completed, completed_at := Some 1003, updated_at := 1003 \<rparr>],
        Some (''mp-1'', ''alice'')) \<and>
   complete sample_store
     [sample_upload\<lparr> status := Completed, completed_at := Some 1003, updated_at := 1003 \<rparr>]
     ''alice'' ''mp-1'' (Some [(1, ''etag-1''), (2, ''etag-2'')]) 1004
     = (Reply_error 400 ''Upload is not active'',
        [sample_upload\<lparr> status := Completed, completed_at := Some 1003, updated_at := 1003 \<rparr>],
        None)"
proof -
  have first: "complete sample_store [sample_upload] ''alice'' ''mp-1''
     (Some [(2, ''etag-2''), (1, ''etag-1'')]) 1003
     = (Reply_completed ''alice/1000-cat.png'' ''temp'' Multipart,
        [sample_upload\<lparr> status := Completed, completed_at := Some 1003, updated_at := 1003 \<rparr>],
        Some (''mp-1'', ''alice''))"
    by (simp add: route_defs store_defs s3_defs sample_defs)
  have valid2: "CompleteUploadSchema ''mp-1'' (Some [(1, ''etag-1''), (2, ''etag-2'')])"
    by (simp add: CompleteUploadSchema_def)
  from complete_twice [OF first valid2, of sample_store 1004] have
    "complete sample_store
     [sample_upload\<lparr> status := Completed, completed_at := Some 1003, updated_at := 1003 \<rparr>]
     ''alice'' ''mp-1'' (Some [(1, ''etag-1''), (2, ''etag-2'')]) 1004
     = (Reply_error 400 ''Upload is not active'',
        [sample_upload\<lparr> status := Completed, completed_at := Some 1003, updated_at := 1003 \<rparr>],
        None)"
    by blast
  with first show ?thesis by (rule conjI)
qed

section \<open>Abort\<close>

text \<open>The handler does not read the status of the record it aborts.\<close>

lemma abort_ignores_status:
  assumes "filter (eq_upload uploadId userId) t = [r]" and "AbortUploadSchema uploadId"
      and "abort_answer store = None"
  shows "abort store t userId uploadId now =
           (Reply_success,
            map (\<lambda>x. if eq_upload uploadId userId x
                      then x\<lparr> status := Aborted, updated_at := now \<rparr> else x) t)"
  using assms
  by (simp add: abort_def getUploadRecord_eq abortMultipartUpload_def markUploadAborted_def
        update_rows_def)

text \<open>
  C2. The claim is that a terminal record rejects abort and mark-failed. On the code, the
  abort of a completed record replies with success and makes the record aborted, and
  \<^verbatim>\<open>markUploadFailed\<close> makes the aborted record failed.
\<close>

theorem abort_accepted_on_completed:
  "abort sample_store
     [sample_upload\<lparr> status := Completed, completed_at := Some 1003, updated_at := 1003 \<rparr>]
     ''alice'' ''mp-1'' 5000
     = (Reply_success,
        [sample_upload\<lparr> status := Aborted, completed_at := Some 1003, updated_at := 5000 \<rparr>]) \<and>
   markUploadFailed
     [sample_upload\<lparr> status := Aborted, completed_at := Some 1003, updated_at := 5000 \<rparr>]
     ''mp-1'' ''alice'' 6000
     = Inr [sample_upload\<lparr> status := Failed, completed_at := Some 1003, updated_at := 6000 \<rparr>]"
  by (simp add: route_defs store_defs s3_defs sample_defs)

section \<open>Part reports through the route\<close>

text \<open>The handler checks the upload type of the record, not its status.\<close>

lemma complete_part_ignores_status:
  assumes "filter (eq_upload uploadId userId) t = [r]" and "upload_type r = Multipart"
      and "CompletePartSchema uploadId partNo eTag nbytes"
  shows "complete_part t userId uploadId partNo eTag nbytes now =
           (Reply_success,
            map (\<lambda>x. if eq_upload uploadId userId x
                      then x\<lparr> parts := upsert_part (parts r)
                                          \<lparr> partNumber = partNo, etag = Some eTag,
                                            size_bytes = nbytes, uploadedAt = Some now \<rparr>,
                              updated_at := now \<rparr>
                      else x) t)"
  using assms
  by (simp add: complete_part_def getUploadRecord_eq updateUploadPart_found)

text \<open>
  C6. The claim is that a part report against a record that is not active is rejected
  and leaves the record unchanged. On the code, a part report against a completed
  multipart record replies with success and stores the part.
\<close>

theorem part_report_accepted_on_completed:
  "complete_part
     [sample_upload\<lparr> status := Completed, completed_at := Some 1003, updated_at := 1003 \<rparr>]
     ''alice'' ''mp-1'' 3 ''late'' 77 5000
     = (Reply_success,
        [sample_upload\<lparr> status := Completed, completed_at := Some 1003, updated_at := 5000,
           parts := [\<lparr> partNumber = 3, etag = Some ''late'', size_bytes = 77,
                       uploadedAt = Some 5000 \<rparr>] \<rparr>])"
  by (simp add: route_defs store_defs s3_defs sample_defs)

section \<open>Promotion\<close>

text \<open>
  A run on a completed record whose copy and whose deletion of the temporary object
  succeed: the final key and bucket are stored, the processing status is not written.
\<close>

lemma processUpload_promotes:
  assumes "filter (eq_upload uploadId userId) t = [r]" and "status r = Completed"
      and "copy_answer store = None"
      and "delete_answer store (tempBucket svc) (s3_key r) = None"
      and "(tempBucket svc, s3_key r) \<in> objs"
  shows "processUpload svc store t objs uploadId userId now =
           (\<lparr> success = True, finalKey = Some (s3_key r), thumbnailKey = None,
              thumbnailUrl = None, error = None \<rparr>,
            map (\<lambda>x. if eq_upload uploadId userId x
                      then x\<lparr> status := Completed, completed_at := Some now, updated_at := now,
                              final_s3_key := Some (s3_key r),
                              final_bucket := Some (finalBucket svc) \<rparr>
                      else x) t,
            insert (finalBucket svc, s3_key r) objs - {(tempBucket svc, s3_key r)})"
  using assms
  by (simp add: processUpload_def processUpload_with_def processUpload_body_def
        performVirusScan_def getUploadRecord_eq copyObject_def deleteObject_def
        markUploadCompleted_def update_rows_def set_if_given_def Let_def)

lemma ready_after_promotion:
  assumes "filter (eq_upload uploadId userId) t = [r]" and "status r = Completed"
      and "copy_answer store = None"
      and "delete_answer store (tempBucket svc) (s3_key r) = None"
      and "(tempBucket svc, s3_key r) \<in> objs"
      and "processUpload svc store t objs uploadId userId now = (res, t1, objs1)"
  shows "\<exists>v. getUploadStatus t1 uploadId userId = Inr (Some v) \<and>
             (ready_for_display v \<longleftrightarrow>
                processing_status r = Some Processed \<or> processing_status r = None)"
proof -
  let ?f = "\<lambda>x. x\<lparr> status := Completed, completed_at := Some now, updated_at := now,
                   final_s3_key := Some (s3_key r), final_bucket := Some (finalBucket svc) \<rparr>"
  from assms(6) have t1: "t1 = map (\<lambda>x. if eq_upload uploadId userId x then ?f x else x) t"
    unfolding processUpload_promotes [OF assms(1-5)] by simp
  have "filter (eq_upload uploadId userId) t1 = [?f r]"
    unfolding t1 using assms(1) by (simp add: filter_update_rows [of ?f])
  from getUploadStatus_eq [OF this] show ?thesis by simp
qed

text \<open>
  The write the promotion leaves out: once the processing status of a completed record
  with a final key is set to processed, the record is ready for display.
\<close>

lemma processed_status_makes_ready:
  assumes "filter (eq_upload uploadId userId) t = [r]" and "status r = Completed"
      and "final_s3_key r \<noteq> None"
  shows "\<exists>t1 v. updateProcessingStatus t uploadId userId Processed progress message now = Inr t1 \<and>
           getUploadStatus t1 uploadId userId = Inr (Some v) \<and> ready_for_display v"
proof -
  let ?f = "\<lambda>x. x\<lparr> processing_status := Some Processed, updated_at := now,
                   processing_progress :=
                     (case progress of
                        None \<Rightarrow> processing_progress x
                      | Some p \<Rightarrow> Some (nat (max 0 (min 100 p)))),
                   processing_message := set_if_given message (processing_message x) \<rparr>"
  let ?t1 = "map (\<lambda>x. if eq_upload uploadId userId x then ?f x else x) t"
  have run: "updateProcessingStatus t uploadId userId Processed progress message now = Inr ?t1"
    by (simp add: updateProcessingStatus_def update_rows_def)
  have "filter (eq_upload uploadId userId) ?t1 = [?f r]"
    using assms(1) by (simp add: filter_update_rows [of ?f])
  from getUploadStatus_eq [OF this] assms(2,3)
  have "\<exists>v. getUploadStatus ?t1 uploadId userId = Inr (Some v) \<and> ready_for_display v"
    by simp
  with run show ?thesis by blast
qed

text \<open>
  C1. The claim is that a promotion whose copy succeeds and whose scan is clean ends
  with \<^verbatim>\<open>ready_for_display\<close> true. On the code, the upload of ten million bytes that is
  initiated, reported in two parts out of order and completed is promoted with success,
  its final key and bucket are stored, and its processing status is still pending:
  \<^verbatim>\<open>ready_for_display\<close> is false.
\<close>

theorem promotion_leaves_processing_pending:
  "(case initiate sample_service sample_store [] ''alice'' ''cat.png'' ''image/png'' 10000000
           None 1000 ''abc'' ''row-1'' of (r0, t0) \<Rightarrow>
    case complete_part t0 ''alice'' ''mp-1'' 2 ''etag-2'' 4000000 1001 of (r1, t1) \<Rightarrow>
    case complete_part t1 ''alice'' ''mp-1'' 1 ''etag-1'' 6000000 1002 of (r2, t2) \<Rightarrow>
    case complete sample_store t2 ''alice'' ''mp-1'' (Some [(1, ''etag-1''), (2, ''etag-2'')])
           1003 of (r3, t3, job) \<Rightarrow>
    case processUpload sample_service sample_store t3 {(''temp'', ''alice/1000-cat.png'')}
           ''mp-1'' ''alice'' 2003 of (res, t4, objs) \<Rightarrow>
      r1 = Reply_success \<and> r2 = Reply_success \<and>
      r3 = Reply_completed ''alice/1000-cat.png'' ''temp'' Multipart \<and>
      job = Some (''mp-1'', ''alice'') \<and>
      res = \<lparr> success = True, finalKey = Some ''alice/1000-cat.png'', thumbnailKey = None,
              thumbnailUrl = None, error = None \<rparr> \<and>
      objs = {(''final'', ''alice/1000-cat.png'')} \<and>
      map status t4 = [Completed] \<and>
      map final_s3_key t4 = [Some ''alice/1000-cat.png''] \<and>
      map final_bucket t4 = [Some ''final''] \<and>
      map processing_status t4 = [Some Pending] \<and>
      getUploadStatus t4 ''mp-1'' ''alice''
        = Inr (Some \<lparr> upload_status = Completed, view_processing_status = Some Pending,
                      view_processing_progress = Some 0, view_processing_message = None,
                      ready_for_display = False \<rparr>))"
  by (simp add: route_defs processing_defs store_defs s3_defs sample_defs Let_def insert_Diff_if)

text \<open>
  The scanner of the repository reports every file clean, so \<^verbatim>\<open>processUpload\<close> never
  takes the branch of a file that is not clean. With a scanner that reports a file not
  clean, that branch deletes the copy from the final bucket and does not write the table.
\<close>

lemma performVirusScan_clean: "clean (performVirusScan key)"
  by (simp add: performVirusScan_def)

lemma unclean_scan_keeps_status:
  assumes "filter (eq_upload uploadId userId) t = [r]" and "status r = Completed"
      and "copy_answer store = None"
      and "delete_answer store (finalBucket svc) (s3_key r) = None"
      and "(tempBucket svc, s3_key r) \<in> objs"
      and "\<not> clean (scan (s3_key r))"
  shows "processUpload_with scan svc store t objs uploadId userId now =
           (\<lparr> success = False, finalKey = None, thumbnailKey = None, thumbnailUrl = None,
              error = Some ''File failed virus scan'' \<rparr>,
            t, insert (finalBucket svc, s3_key r) objs - {(finalBucket svc, s3_key r)})"
  using assms
  by (simp add: processUpload_with_def processUpload_body_def getUploadRecord_eq copyObject_def
        deleteObject_def Let_def)

section \<open>Part reports in turn and interleaved\<close>

text \<open>The two steps of one call, taken together, are \<^verbatim>\<open>updateUploadPart\<close>.\<close>

lemma step_call_twice:
  "(case step_call t uploadId userId now (Not_started partNo eTag nbytes) of
      (c, t0) \<Rightarrow> step_call t0 uploadId userId now c)
   = (case updateUploadPart t uploadId userId partNo eTag nbytes now of
        Inl e \<Rightarrow> (Rejected e, t)
      | Inr t1 \<Rightarrow> (Resolved, t1))"
  by (simp add: updateUploadPart_def getUploadRecord_eq split: list.splits sum.splits)

text \<open>
  C9, as stated: two calls for parts 1 and 2 that both read before either writes both
  resolve, and the record holds part 2 only; the same calls in turn store both parts.
\<close>

theorem interleaved_part_reports_lose_a_part:
  "run_schedule [sample_upload] ''mp-1'' ''alice'' 1001
     [Not_started 1 ''etag-1'' 6000000, Not_started 2 ''etag-2'' 4000000] [0, 1, 0, 1]
   = ([Resolved, Resolved],
      [sample_upload\<lparr> parts := [\<lparr> partNumber = 2, etag = Some ''etag-2'',
                                    size_bytes = 4000000, uploadedAt = Some 1001 \<rparr>],
                      updated_at := 1001 \<rparr>]) \<and>
   run_schedule [sample_upload] ''mp-1'' ''alice'' 1001
     [Not_started 1 ''etag-1'' 6000000, Not_started 2 ''etag-2'' 4000000] [0, 0, 1, 1]
   = ([Resolved, Resolved],
      [sample_upload\<lparr> parts := [\<lparr> partNumber = 1, etag = Some ''etag-1'',
                                    size_bytes = 6000000, uploadedAt = Some 1001 \<rparr>,
                                  \<lparr> partNumber = 2, etag = Some ''etag-2'',
                                    size_bytes = 4000000, uploadedAt = Some 1001 \<rparr>],
                      updated_at := 1001 \<rparr>])"
  by (simp add: store_defs sample_defs)

lemma findIndex_Some_less: "findIndex p xs = Some i \<Longrightarrow> i < length xs"
  by (induction xs arbitrary: i) (auto split: if_splits option.splits)

lemma upsert_part_mem: "np \<in> set (upsert_part ps np)"
  by (auto simp: upsert_part_def set_update_memI split: option.splits dest: findIndex_Some_less)

lemma upsert_part_keeps_others:
  assumes "q \<in> set ps" and "partNumber q \<noteq> partNumber np"
  shows "q \<in> set (upsert_part ps np)"
proof -
  from assms have "q \<in> set (filter (\<lambda>p. partNumber p \<noteq> partNumber np) ps)" by simp
  then have "q \<in> set (filter (\<lambda>p. partNumber p \<noteq> partNumber np) (upsert_part ps np))"
    by (simp only: filter_others_upsert)
  then show ?thesis by simp
qed

lemma map_partNumber_upsert:
  "map partNumber (upsert_part ps np) =
     map partNumber ps @ (if partNumber np \<in> set (map partNumber ps) then [] else [partNumber np])"
proof (cases "partNumber np \<in> partNumber ` set ps")
  case True
  then show ?thesis using map_partNumber_upsert_present [of np ps] by simp
next
  case False
  then show ?thesis using upsert_part_fresh [of np ps] by simp
qed

lemma unique_entry:
  "distinct (map f xs) \<Longrightarrow> x \<in> set xs \<Longrightarrow> filter (\<lambda>y. f y = f x) xs = [x]"
proof (induction xs)
  case Nil
  then show ?case by simp
next
  case (Cons a xs)
  show ?case
  proof (cases "a = x")
    case True
    with Cons.prems have "f x \<notin> f ` set xs" by simp
    then have "\<forall>y\<in>set xs. f y \<noteq> f x" by (metis image_eqI)
    then have "filter (\<lambda>y. f y = f x) xs = []" by (simp add: filter_empty_conv)
    with True show ?thesis by simp
  next
    case False
    with Cons.prems have x: "x \<in> set xs" and d: "distinct (map f xs)" and
      a: "f a \<notin> f ` set xs" by auto
    from a x have "f a \<noteq> f x" by (metis image_eqI)
    with Cons.IH [OF d x] show ?thesis by simp
  qed
qed

lemma update_parts_in_turn_result:
  assumes "filter (eq_upload uploadId userId) t = [r]"
      and "distinct (map fst reports)"
  shows "\<exists>t1 r1. update_parts_in_turn t uploadId userId now reports = Inr t1 \<and>
           filter (eq_upload uploadId userId) t1 = [r1] \<and>
           (\<forall>rep\<in>set reports. reported_part now rep \<in> set (parts r1)) \<and>
           (\<forall>q\<in>set (parts r). partNumber q \<notin> set (map fst reports) \<longrightarrow> q \<in> set (parts r1)) \<and>
           map partNumber (parts r1) =
             map partNumber (parts r) @
             filter (\<lambda>n. n \<notin> set (map partNumber (parts r))) (map fst reports)"
  using assms
proof (induction reports arbitrary: t r)
  case Nil
  then show ?case by simp
next
  case (Cons rep reports)
  obtain partNo eTag nbytes where rep: "rep = (partNo, eTag, nbytes)"
    by (cases rep) auto
  let ?np = "\<lparr> partNumber = partNo, etag = Some eTag, size_bytes = nbytes,
               uploadedAt = Some now \<rparr>"
  let ?ps = "upsert_part (parts r) ?np"
  let ?f = "\<lambda>x. x\<lparr> parts := ?ps, updated_at := now \<rparr>"
  let ?t0 = "map (\<lambda>x. if eq_upload uploadId userId x then ?f x else x) t"
  have np: "?np = reported_part now rep" "partNumber ?np = partNo"
    using rep by (simp_all add: reported_part_def)
  have run: "updateUploadPart t uploadId userId partNo eTag nbytes now = Inr ?t0"
    using Cons.prems(1) by (rule updateUploadPart_found)
  have sel: "filter (eq_upload uploadId userId) ?t0 = [?f r]"
    using Cons.prems(1) by (simp add: filter_update_rows [of ?f])
  have dist: "distinct (map fst reports)" and notin: "partNo \<notin> set (map fst reports)"
    using Cons.prems(2) rep by auto
  from Cons.IH [OF sel dist] obtain t1 r1 where
    rest: "update_parts_in_turn ?t0 uploadId userId now reports = Inr t1" and
    sel1: "filter (eq_upload uploadId userId) t1 = [r1]" and
    stored: "\<forall>rep\<in>set reports. reported_part now rep \<in> set (parts r1)" and
    kept: "\<forall>q\<in>set ?ps. partNumber q \<notin> set (map fst reports) \<longrightarrow> q \<in> set (parts r1)" and
    nums: "map partNumber (parts r1) =
             map partNumber ?ps @ filter (\<lambda>n. n \<notin> set (map partNumber ?ps)) (map fst reports)"
    by auto
  have whole: "update_parts_in_turn t uploadId userId now (rep # reports) = Inr t1"
    using run rest rep by simp
  have "?np \<in> set ?ps" by (rule upsert_part_mem)
  with kept notin np(2) have "?np \<in> set (parts r1)" by metis
  with stored np(1) have stored1: "\<forall>rep'\<in>set (rep # reports). reported_part now rep' \<in> set (parts r1)"
    by simp
  have kept1: "\<forall>q\<in>set (parts r). partNumber q \<notin> set (map fst (rep # reports)) \<longrightarrow>
                 q \<in> set (parts r1)"
  proof (intro ballI impI)
    fix q assume q: "q \<in> set (parts r)" and n: "partNumber q \<notin> set (map fst (rep # reports))"
    from n rep have "partNumber q \<noteq> partNo" "partNumber q \<notin> set (map fst reports)" by auto
    moreover from q this(1) np(2) have "q \<in> set ?ps"
      by (intro upsert_part_keeps_others) simp_all
    ultimately show "q \<in> set (parts r1)" using kept by metis
  qed
  have mp: "map partNumber ?ps =
              map partNumber (parts r) @
              (if partNo \<in> set (map partNumber (parts r)) then [] else [partNo])"
    using map_partNumber_upsert [of "parts r" ?np] by simp
  have "filter (\<lambda>n. n \<notin> set (map partNumber ?ps)) (map fst reports) =
          filter (\<lambda>n. n \<notin> set (map partNumber (parts r))) (map fst reports)"
  proof (rule filter_cong [OF refl])
    fix n assume "n \<in> set (map fst reports)"
    with notin have "n \<noteq> partNo" by metis
    then show "(n \<notin> set (map partNumber ?ps)) = (n \<notin> set (map partNumber (parts r)))"
      unfolding mp by simp
  qed
  with nums mp rep have nums1: "map partNumber (parts r1) =
             map partNumber (parts r) @
             filter (\<lambda>n. n \<notin> set (map partNumber (parts r))) (map fst (rep # reports))"
    by simp
  from whole sel1 stored1 kept1 nums1 show ?case by blast
qed

text \<open>
  C9, amended. Part reports for distinct part numbers that run one after the other all
  persist: every reported part is stored, the parts with other numbers stay, the record
  holds the numbers it had followed by the reported numbers it did not have, and on a
  record whose parts have distinct numbers each reported number has exactly one part, the
  reported one.
\<close>

theorem part_reports_in_turn_persist:
  assumes found: "getUploadRecord t uploadId userId = Inr (Some r)"
      and dist: "distinct (map fst reports)"
  shows "\<exists>t1 r1. update_parts_in_turn t uploadId userId now reports = Inr t1 \<and>
           getUploadRecord t1 uploadId userId = Inr (Some r1) \<and>
           (\<forall>rep\<in>set reports. reported_part now rep \<in> set (parts r1)) \<and>
           (\<forall>q\<in>set (parts r). partNumber q \<notin> set (map fst reports) \<longrightarrow> q \<in> set (parts r1)) \<and>
           map partNumber (parts r1) =
             map partNumber (parts r) @
             filter (\<lambda>n. n \<notin> set (map partNumber (parts r))) (map fst reports) \<and>
           (distinct (map partNumber (parts r)) \<longrightarrow>
              distinct (map partNumber (parts r1)) \<and>
              (\<forall>rep\<in>set reports.
                 filter (\<lambda>p. partNumber p = fst rep) (parts r1) = [reported_part now rep]))"
proof -
  from update_parts_in_turn_result [OF getUploadRecord_SomeD [OF found] dist, of now]
  obtain t1 r1 where
    run: "update_parts_in_turn t uploadId userId now reports = Inr t1" and
    sel: "filter (eq_upload uploadId userId) t1 = [r1]" and
    stored: "\<forall>rep\<in>set reports. reported_part now rep \<in> set (parts r1)" and
    kept: "\<forall>q\<in>set (parts r). partNumber q \<notin> set (map fst reports) \<longrightarrow> q \<in> set (parts r1)" and
    nums: "map partNumber (parts r1) =
             map partNumber (parts r) @
             filter (\<lambda>n. n \<notin> set (map partNumber (parts r))) (map fst reports)"
    by blast
  from sel have again: "getUploadRecord t1 uploadId userId = Inr (Some r1)"
    by (simp add: getUploadRecord_eq)
  have one: "distinct (map partNumber (parts r)) \<longrightarrow>
              distinct (map partNumber (parts r1)) \<and>
              (\<forall>rep\<in>set reports.
                 filter (\<lambda>p. partNumber p = fst rep) (parts r1) = [reported_part now rep])"
  proof
    assume d: "distinct (map partNumber (parts r))"
    have d1: "distinct (map partNumber (parts r1))"
      unfolding nums using d dist by (auto simp: distinct_map_filter)
    have "\<forall>rep\<in>set reports.
            filter (\<lambda>p. partNumber p = fst rep) (parts r1) = [reported_part now rep]"
    proof
      fix rep assume rep: "rep \<in> set reports"
      with stored have "reported_part now rep \<in> set (parts r1)" by simp
      from unique_entry [OF d1 this] have
        "filter (\<lambda>p. partNumber p = partNumber (reported_part now rep)) (parts r1)
           = [reported_part now rep]" .
      moreover have "partNumber (reported_part now rep) = fst rep"
        by (cases rep) (simp add: reported_part_def)
      ultimately show "filter (\<lambda>p. partNumber p = fst rep) (parts r1) = [reported_part now rep]"
        by simp
    qed
    with d1 show "distinct (map partNumber (parts r1)) \<and>
              (\<forall>rep\<in>set reports.
                 filter (\<lambda>p. partNumber p = fst rep) (parts r1) = [reported_part now rep])"
      by simp
  qed
  from run again stored kept nums one show ?thesis by blast
qed

theorem part_reports_in_turn_persist_witness:
  "(\<exists>t1 r1.
      update_parts_in_turn [sample_upload] ''mp-1'' ''alice'' 1001
        [(1, ''e1'', 1000000), (2, ''e2'', 1000000), (3, ''e3'', 1000000), (4, ''e4'', 1000000),
         (5, ''e5'', 1000000), (6, ''e6'', 1000000), (7, ''e7'', 1000000), (8, ''e8'', 1000000),
         (9, ''e9'', 1000000), (10, ''e10'', 1000000)] = Inr t1 \<and>
      getUploadRecord t1 ''mp-1'' ''alice'' = Inr (Some r1) \<and>
      map partNumber (parts r1) = [1, 2, 3, 4, 5, 6, 7, 8, 9, 10]) \<and>
   (\<exists>t1 r1.
      update_parts_in_turn
        [sample_upload\<lparr> parts := [\<lparr> partNumber = 2, etag = Some ''old'', size_bytes = 5,
                                      uploadedAt = Some 900 \<rparr>] \<rparr>]
        ''mp-1'' ''alice'' 1001
        [(1, ''e1'', 1000000), (2, ''e2'', 1000000), (3, ''e3'', 1000000)] = Inr t1 \<and>
      getUploadRecord t1 ''mp-1'' ''alice'' = Inr (Some r1) \<and>
      map partNumber (parts r1) = [2, 1, 3] \<and>
      filter (\<lambda>p. partNumber p = 2) (parts r1) =
        [\<lparr> partNumber = 2, etag = Some ''e2'', size_bytes = 1000000, uploadedAt = Some 1001 \<rparr>])"
proof -
  let ?ten = "[(1::nat, ''e1'', 1000000::nat), (2, ''e2'', 1000000), (3, ''e3'', 1000000),
        (4, ''e4'', 1000000), (5, ''e5'', 1000000), (6, ''e6'', 1000000), (7, ''e7'', 1000000),
        (8, ''e8'', 1000000), (9, ''e9'', 1000000), (10, ''e10'', 1000000)]"
  have found: "getUploadRecord [sample_upload] ''mp-1'' ''alice'' = Inr (Some sample_upload)"
    by (simp add: getUploadRecord_eq eq_upload_def sample_upload_def)
  have dist: "distinct (map fst ?ten)"
    by simp
  from part_reports_in_turn_persist [OF found dist, of 1001] obtain t1 r1 where
    run: "update_parts_in_turn [sample_upload] ''mp-1'' ''alice'' 1001 ?ten = Inr t1" and
    again: "getUploadRecord t1 ''mp-1'' ''alice'' = Inr (Some r1)" and
    ps: "map partNumber (parts r1) =
           map partNumber (parts sample_upload) @
           filter (\<lambda>n. n \<notin> set (map partNumber (parts sample_upload))) (map fst ?ten)"
    by blast
  from ps have nums: "map partNumber (parts r1) = [1, 2, 3, 4, 5, 6, 7, 8, 9, 10]"
    by (simp add: sample_upload_def)
  have first: "\<exists>t1 r1.
      update_parts_in_turn [sample_upload] ''mp-1'' ''alice'' 1001 ?ten = Inr t1 \<and>
      getUploadRecord t1 ''mp-1'' ''alice'' = Inr (Some r1) \<and>
      map partNumber (parts r1) = [1, 2, 3, 4, 5, 6, 7, 8, 9, 10]"
    by (rule exI [of _ t1], rule exI [of _ r1]) (simp only: run again nums simp_thms)
  let ?r = "sample_upload\<lparr> parts := [\<lparr> partNumber = 2, etag = Some ''old'', size_bytes = 5,
                                        uploadedAt = Some 900 \<rparr>] \<rparr>"
  let ?three = "[(1::nat, ''e1'', 1000000::nat), (2, ''e2'', 1000000), (3, ''e3'', 1000000)]"
  have found2: "getUploadRecord [?r] ''mp-1'' ''alice'' = Inr (Some ?r)"
    by (simp add: getUploadRecord_eq eq_upload_def sample_upload_def)
  have dist2: "distinct (map fst ?three)"
    by simp
  have stored: "distinct (map partNumber (parts ?r))"
    by simp
  from part_reports_in_turn_persist [OF found2 dist2, of 1001] obtain t2 r2 where
    run2: "update_parts_in_turn [?r] ''mp-1'' ''alice'' 1001 ?three = Inr t2" and
    again2: "getUploadRecord t2 ''mp-1'' ''alice'' = Inr (Some r2)" and
    ps2: "map partNumber (parts r2) =
            map partNumber (parts ?r) @
            filter (\<lambda>n. n \<notin> set (map partNumber (parts ?r))) (map fst ?three)" and
    one: "distinct (map partNumber (parts ?r)) \<longrightarrow>
            distinct (map partNumber (parts r2)) \<and>
            (\<forall>rep\<in>set ?three.
               filter (\<lambda>p. partNumber p = fst rep) (parts r2) = [reported_part 1001 rep])"
    by blast
  from ps2 have nums2: "map partNumber (parts r2) = [2, 1, 3]"
    by simp
  from one stored have
    "\<forall>rep\<in>set ?three. filter (\<lambda>p. partNumber p = fst rep) (parts r2) = [reported_part 1001 rep]"
    by (rule mp [THEN conjunct2])
  then have "filter (\<lambda>p. partNumber p = fst (2::nat, ''e2'', 1000000::nat)) (parts r2)
               = [reported_part 1001 (2, ''e2'', 1000000)]"
    by (rule bspec) simp
  then have replaced: "filter (\<lambda>p. partNumber p = 2) (parts r2) =
        [\<lparr> partNumber = 2, etag = Some ''e2'', size_bytes = 1000000, uploadedAt = Some 1001 \<rparr>]"
    by (simp add: reported_part_def)
  have second: "\<exists>t1 r1.
      update_parts_in_turn [?r] ''mp-1'' ''alice'' 1001 ?three = Inr t1 \<and>
      getUploadRecord t1 ''mp-1'' ''alice'' = Inr (Some r1) \<and>
      map partNumber (parts r1) = [2, 1, 3] \<and>
      filter (\<lambda>p. partNumber p = 2) (parts r1) =
        [\<lparr> partNumber = 2, etag = Some ''e2'', size_bytes = 1000000, uploadedAt = Some 1001 \<rparr>]"
    by (rule exI [of _ t2], rule exI [of _ r2]) (simp only: run2 again2 nums2 replaced simp_thms)
  from first second show ?thesis by (rule conjI)
qed

end
